theory Spec2Isabelle
  imports Complex_Main "HOL-Library.Word" "HOL-Library.Multiset" "HOL-Library.Sublist"
    "HOL-Library.Product_Lexorder"
begin

unbundle bit_operations_syntax

section \<open>Data model\<close>

text \<open>
  Four-momenta are kept abstract (type variable \<open>'p\<close>): the code only reads them through
  \<open>Pt()\<close>, \<open>eta()\<close>, \<open>E()\<close>, \<open>M()\<close> and \<open>operator+\<close>, which are collaborators of the
  record below. Floating-point numbers are read as reals. The enumerations \<open>Period\<close>,
  \<open>JetOrdering\<close>, \<open>UncertaintySource\<close> and \<open>UncertaintyScale\<close> are declared outside the
  analysed sources and are carried as their integer codes.
\<close>

type_synonym Period = int
type_synonym JetOrdering = int
type_synonym UncertaintySource = int
type_synonym UncertaintyScale = int
type_synonym MetCovMatrix = "real \<times> real \<times> real \<times> real"

datatype error =
    Exception string  \<comment> \<open>\<open>throw analysis::exception(msg)\<close>\<close>
  | OutOfRange        \<comment> \<open>\<open>std::out_of_range\<close> raised by \<open>vector::at\<close>\<close>

text \<open>The branches of \<open>ntuple::Event\<close> (EventTuple.h) that the analysed code reads.\<close>

record 'p Event =
  jets_p4 :: "'p list"
  jets_pu_id :: "16 word list"
  jets_resolution :: "real list"
  other_jets_p4 :: "'p list"
  fatJets_p4 :: "'p list"
  pfMET_p4 :: 'p
  pfMET_cov :: MetCovMatrix
  lep_p4 :: "'p list"
  lep_iso :: "real list"
  kinFit_jetPairId :: "nat list"
  kinFit_convergence :: "int list"
  kinFit_chi2 :: "real list"
  kinFit_m :: "real list"
  first_daughter_indexes :: "nat list"
  second_daughter_indexes :: "nat list"

text \<open>\<open>analysis::jet_ordering::JetInfo\<close>: momentum, index in the jet array, tag score.\<close>

record 'p JetInfo =
  p4 :: 'p
  index :: nat
  tag :: real

text \<open>\<open>BTagger\<close>, constructed from the period and the ordering policy.\<close>

record 'p BTagger =
  PtCut :: real
  EtaCut :: real
  BTag :: "'p Event \<Rightarrow> nat \<Rightarrow> real"
  Pass :: "'p Event \<Rightarrow> nat \<Rightarrow> bool"

text \<open>
  The invariant mass \<open>jet_12.M()\<close> is a floating-point number that line 111 compares with
  a \<open>double\<close> starting at minus infinity. A \<open>double\<close> is a real number, one of the two
  infinities, or not-a-number; \<open>double_gt\<close> is the comparison \<open>>\<close> of IEEE 754, false
  whenever an operand is not a number (rounding is not modelled: the finite values are
  compared as the reals they denote).
\<close>

datatype double = NaN | MinusInfinity | Finite real | PlusInfinity

fun double_gt :: "double \<Rightarrow> double \<Rightarrow> bool" where
  "double_gt NaN y = False"
| "double_gt x NaN = False"
| "double_gt MinusInfinity y = False"
| "double_gt x MinusInfinity = True"
| "double_gt PlusInfinity PlusInfinity = False"
| "double_gt PlusInfinity (Finite y) = True"
| "double_gt (Finite x) PlusInfinity = False"
| "double_gt (Finite x) (Finite y) = (x > y)"

text \<open>
  The collaborators of \<open>SelectSignalJets\<close> that live outside the analysed sources: the
  four-momentum operations, the detector-noise veto, the tagger factory and the two VBF
  thresholds of \<open>cuts::hh_bbtautau_2017::jetID\<close>. The mass of a momentum is a \<open>double\<close>.
\<close>

record 'p kinematics =
  p4_Pt :: "'p \<Rightarrow> real"
  p4_eta :: "'p \<Rightarrow> real"
  p4_E :: "'p \<Rightarrow> real"
  p4_M :: "'p \<Rightarrow> double"
  p4_plus :: "'p \<Rightarrow> 'p \<Rightarrow> 'p"
  PassEcalNoiceVetoJets :: "'p \<Rightarrow> Period \<Rightarrow> 16 word \<Rightarrow> bool"
  make_BTagger :: "Period \<Rightarrow> JetOrdering \<Rightarrow> 'p BTagger"
  vbf_pt_cut :: real
  vbf_eta_cut :: real

record SelectedSignalJets =
  selectedBjetPair :: "nat \<times> nat"
  selectedVBFjetPair :: "nat \<times> nat"
  n_bjets :: nat

section \<open>SelectedSignalJets\<close>

text \<open>
  Modelled from the spec: \<open>ntuple::UndefinedJetPair()\<close> is declared outside the analysed
  sources. The spec only says that an undefined pair holds no valid position of the jet
  array; the model uses the largest \<open>size_t\<close> for both members.
\<close>

definition UndefinedJetIndex :: nat where
  "UndefinedJetIndex = 2 ^ 64 - 1"

definition UndefinedJetPair :: "nat \<times> nat" where
  "UndefinedJetPair = (UndefinedJetIndex, UndefinedJetIndex)"

definition SelectedSignalJets_init :: SelectedSignalJets where
  "SelectedSignalJets_init =
     \<lparr>selectedBjetPair = UndefinedJetPair, selectedVBFjetPair = UndefinedJetPair, n_bjets = 0\<rparr>"

definition HasBjetPair :: "SelectedSignalJets \<Rightarrow> nat \<Rightarrow> bool" where
  "HasBjetPair s njets \<longleftrightarrow>
     fst (selectedBjetPair s) < njets \<and> snd (selectedBjetPair s) < njets"

definition HasVBFPair :: "SelectedSignalJets \<Rightarrow> nat \<Rightarrow> bool" where
  "HasVBFPair s njets \<longleftrightarrow>
     fst (selectedVBFjetPair s) < njets \<and> snd (selectedVBFjetPair s) < njets"

definition isSelectedBjet :: "SelectedSignalJets \<Rightarrow> nat \<Rightarrow> bool" where
  "isSelectedBjet s n \<longleftrightarrow> fst (selectedBjetPair s) = n \<or> snd (selectedBjetPair s) = n"

definition isSelectedVBFjet :: "SelectedSignalJets \<Rightarrow> nat \<Rightarrow> bool" where
  "isSelectedVBFjet s n \<longleftrightarrow> fst (selectedVBFjetPair s) = n \<or> snd (selectedVBFjetPair s) = n"

section \<open>Jet ranking\<close>

text \<open>
  Modelled from the spec: \<open>jet_ordering::OrderJets\<close> is defined outside the analysed
  sources. Following the spec (ranking and filtering of (momentum, index, tag) triples
  under pt/eta thresholds, sorted descending by tag, ties by pt): with the hard cut the
  candidates above the pt threshold and inside the eta window are kept, then the list is
  sorted by descending tag and, for equal tags, descending pt.
\<close>

definition PassHardCut :: "'p kinematics \<Rightarrow> real \<Rightarrow> real \<Rightarrow> 'p JetInfo \<Rightarrow> bool" where
  "PassHardCut K pt_thr eta_thr j \<longleftrightarrow>
     p4_Pt K (p4 j) > pt_thr \<and> \<bar>p4_eta K (p4 j)\<bar> < eta_thr"

definition OrderJets ::
  "'p kinematics \<Rightarrow> 'p JetInfo list \<Rightarrow> bool \<Rightarrow> real \<Rightarrow> real \<Rightarrow> 'p JetInfo list" where
  "OrderJets K jet_info_vector apply_hard_cut pt_thr eta_thr =
     sort_key (\<lambda>j. (- tag j, - p4_Pt K (p4 j)))
       (if apply_hard_cut then filter (PassHardCut K pt_thr eta_thr) jet_info_vector
        else jet_info_vector)"

section \<open>SelectSignalJets\<close>

text \<open>
  The lambda \<open>CreateJetInfo\<close>: the loop over \<open>n = 0 .. jets_p4.size() - 1\<close>, here over the
  list of the indices still to visit. \<open>jets_pu_id.at(n)\<close> raises when the pile-up-id
  array is shorter than the jet array; \<open>jets_p4.at(n)\<close> is always in range.
\<close>

fun CreateJetInfo_loop ::
  "'p kinematics \<Rightarrow> 'p Event \<Rightarrow> Period \<Rightarrow> 'p BTagger \<Rightarrow> SelectedSignalJets \<Rightarrow> bool \<Rightarrow>
   nat list \<Rightarrow> error + 'p JetInfo list" where
  "CreateJetInfo_loop K ev period bTagger sel useBTag [] = Inr []"
| "CreateJetInfo_loop K ev period bTagger sel useBTag (n # ns) =
     (if isSelectedBjet sel n then CreateJetInfo_loop K ev period bTagger sel useBTag ns
      else if isSelectedVBFjet sel n then CreateJetInfo_loop K ev period bTagger sel useBTag ns
      else if length (jets_pu_id ev) \<le> n then Inl OutOfRange
      else if \<not> PassEcalNoiceVetoJets K (jets_p4 ev ! n) period (jets_pu_id ev ! n)
        then CreateJetInfo_loop K ev period bTagger sel useBTag ns
      else if (jets_pu_id ev ! n) AND 2 = 0
        then CreateJetInfo_loop K ev period bTagger sel useBTag ns
      else (case CreateJetInfo_loop K ev period bTagger sel useBTag ns of
              Inl e \<Rightarrow> Inl e
            | Inr rest \<Rightarrow>
                Inr (\<lparr>p4 = jets_p4 ev ! n, index = n,
                      tag = (if useBTag then BTag bTagger ev n else p4_Pt K (jets_p4 ev ! n))\<rparr>
                     # rest)))"

definition CreateJetInfo ::
  "'p kinematics \<Rightarrow> 'p Event \<Rightarrow> Period \<Rightarrow> 'p BTagger \<Rightarrow> SelectedSignalJets \<Rightarrow> bool \<Rightarrow>
   error + 'p JetInfo list" where
  "CreateJetInfo K ev period bTagger sel useBTag =
     CreateJetInfo_loop K ev period bTagger sel useBTag [0 ..< length (jets_p4 ev)]"

text \<open>Lines 87-88: the b-tag ranked candidate list.\<close>

definition bjets_ordered ::
  "'p kinematics \<Rightarrow> 'p Event \<Rightarrow> Period \<Rightarrow> JetOrdering \<Rightarrow> error + 'p JetInfo list" where
  "bjets_ordered K ev period jet_ordering =
     (let bTagger = make_BTagger K period jet_ordering in
      case CreateJetInfo K ev period bTagger SelectedSignalJets_init True of
        Inl e \<Rightarrow> Inl e
      | Inr jet_info_vector \<Rightarrow>
          Inr (OrderJets K jet_info_vector True (PtCut bTagger) (EtaCut bTagger)))"

text \<open>Lines 89-98: the count and the two b-jet slots after the first ranking.\<close>

definition select_bjets ::
  "'p BTagger \<Rightarrow> 'p Event \<Rightarrow> 'p JetInfo list \<Rightarrow> SelectedSignalJets" where
  "select_bjets bTagger ev bjets =
     (let s0 = SelectedSignalJets_init\<lparr>n_bjets := length bjets\<rparr>;
          s1 = (if length bjets \<ge> 1
                then s0\<lparr>selectedBjetPair := (index (bjets ! 0), snd (selectedBjetPair s0))\<rparr>
                else s0)
      in if length bjets \<ge> 2 \<and> Pass bTagger ev (index (bjets ! 1))
         then s1\<lparr>selectedBjetPair := (fst (selectedBjetPair s1), index (bjets ! 1))\<rparr>
         else s1)"

text \<open>Lines 100-103: the pt ranked VBF candidate list, built after the b-jet slots.\<close>

definition vbf_jets_ordered ::
  "'p kinematics \<Rightarrow> 'p Event \<Rightarrow> Period \<Rightarrow> JetOrdering \<Rightarrow> SelectedSignalJets \<Rightarrow>
   error + 'p JetInfo list" where
  "vbf_jets_ordered K ev period jet_ordering sel =
     (let bTagger = make_BTagger K period jet_ordering in
      case CreateJetInfo K ev period bTagger sel False of
        Inl e \<Rightarrow> Inl e
      | Inr jet_info_vector_vbf \<Rightarrow>
          Inr (OrderJets K jet_info_vector_vbf True (vbf_pt_cut K) (vbf_eta_cut K)))"

text \<open>
  Lines 105-117: the double loop over \<open>n < h\<close>. The accumulator holds \<open>max_mjj\<close>, which
  starts at minus infinity, and the VBF pair of the selection; a pair replaces the current
  one only when \<open>jet_12.M() > max_mjj\<close> holds, so a mass that is not a number (or is
  minus infinity) is never accepted.
\<close>

definition mjj :: "'p kinematics \<Rightarrow> 'p JetInfo list \<Rightarrow> nat \<Rightarrow> nat \<Rightarrow> double" where
  "mjj K vbf n h = p4_M K (p4_plus K (p4 (vbf ! n)) (p4 (vbf ! h)))"

definition vbf_step ::
  "'p kinematics \<Rightarrow> 'p JetInfo list \<Rightarrow> nat \<Rightarrow> nat \<Rightarrow> double \<times> (nat \<times> nat) \<Rightarrow>
   double \<times> (nat \<times> nat)" where
  "vbf_step K vbf n h acc =
     (if double_gt (mjj K vbf n h) (fst acc)
      then (mjj K vbf n h, (index (vbf ! n), index (vbf ! h)))
      else acc)"

definition vbf_loop ::
  "'p kinematics \<Rightarrow> 'p JetInfo list \<Rightarrow> double \<times> (nat \<times> nat) \<Rightarrow>
   double \<times> (nat \<times> nat)" where
  "vbf_loop K vbf acc =
     fold (\<lambda>n a. fold (\<lambda>h b. vbf_step K vbf n h b) [Suc n ..< length vbf] a)
       [0 ..< length vbf] acc"

definition select_vbf ::
  "'p kinematics \<Rightarrow> 'p JetInfo list \<Rightarrow> SelectedSignalJets \<Rightarrow> SelectedSignalJets" where
  "select_vbf K vbf sel =
     sel\<lparr>selectedVBFjetPair := snd (vbf_loop K vbf (MinusInfinity, selectedVBFjetPair sel))\<rparr>"

text \<open>Lines 122-123: the b-tag ranking recomputed in the fallback.\<close>

definition new_bjets_ordered ::
  "'p kinematics \<Rightarrow> 'p Event \<Rightarrow> Period \<Rightarrow> JetOrdering \<Rightarrow> SelectedSignalJets \<Rightarrow>
   error + 'p JetInfo list" where
  "new_bjets_ordered K ev period jet_ordering sel =
     (let bTagger = make_BTagger K period jet_ordering in
      case CreateJetInfo K ev period bTagger sel True of
        Inl e \<Rightarrow> Inl e
      | Inr jet_info_vector_new \<Rightarrow>
          Inr (OrderJets K jet_info_vector_new True (PtCut bTagger) (EtaCut bTagger)))"

definition SelectSignalJets ::
  "'p kinematics \<Rightarrow> 'p Event \<Rightarrow> Period \<Rightarrow> JetOrdering \<Rightarrow> error + SelectedSignalJets" where
  "SelectSignalJets K ev period jet_ordering =
     (case bjets_ordered K ev period jet_ordering of
        Inl e \<Rightarrow> Inl e
      | Inr bjets \<Rightarrow>
          let s2 = select_bjets (make_BTagger K period jet_ordering) ev bjets in
          (case vbf_jets_ordered K ev period jet_ordering s2 of
             Inl e \<Rightarrow> Inl e
           | Inr vbf \<Rightarrow>
               let s3 = select_vbf K vbf s2 in
               if HasBjetPair s3 (length (jets_p4 ev)) then Inr s3
               else (case new_bjets_ordered K ev period jet_ordering s3 of
                       Inl e \<Rightarrow> Inl e
                     | Inr new_bjets \<Rightarrow>
                         if length new_bjets \<ge> 1
                         then Inr (s3\<lparr>selectedBjetPair :=
                                        (fst (selectedBjetPair s3), index (new_bjets ! 0))\<rparr>)
                         else
                           let s4 = s3\<lparr>selectedVBFjetPair := UndefinedJetPair\<rparr> in
                           if length bjets \<ge> 2
                           then Inr (s4\<lparr>selectedBjetPair :=
                                          (fst (selectedBjetPair s4), index (bjets ! 1))\<rparr>)
                           else Inr s4)))"

section \<open>EventInfoBase: the cache of derived objects\<close>

text \<open>
  The candidates built over the record. A \<open>JetCandidate\<close> wraps a \<open>TupleJet\<close> (the record
  and a jet index) and carries its own momentum, which the corrector may replace.
\<close>

record 'p LepCandidate =
  lep_momentum :: 'p
  lep_isolation :: real

record 'p JetCandidate =
  jet_momentum :: 'p
  jet_id :: nat

record 'p FatJetCandidate =
  fatjet_momentum :: 'p
  fatjet_id :: nat

record 'p MET =
  met_momentum :: 'p
  met_cov :: MetCovMatrix

record 'p HiggsBBCandidate =
  first_daughter :: "'p JetCandidate"
  second_daughter :: "'p JetCandidate"

record FitResults =
  convergence :: int
  chi2 :: real
  probability :: real
  mass :: real

type_synonym 'p JetCollection = "'p JetCandidate list"

text \<open>
  \<open>jec::JECUncertaintiesWrapper::ApplyShift\<close>: from the jets, the source, the scale, the
  other jets and the missing-energy momentum to the corrected jets and the shifted
  missing-energy momentum (written through the pointer argument in the source).
\<close>

type_synonym 'p JECUncertaintiesWrapper =
  "'p JetCollection \<Rightarrow> UncertaintySource \<Rightarrow> UncertaintyScale \<Rightarrow> 'p list \<Rightarrow> 'p
   \<Rightarrow> 'p JetCollection \<times> 'p"

record 'p SummaryInfo =
  jecUncertainties :: "'p JECUncertaintiesWrapper option"

text \<open>
  The objects behind the \<open>std::shared_ptr\<close> members live in a store with one region per
  object type; an address is a position in its region and \<open>make_shared\<close> appends a cell.
\<close>

record 'p Heap =
  leg_cells :: "'p LepCandidate list"
  jets_cells :: "'p JetCollection list"
  fatJets_cells :: "'p FatJetCandidate list list"
  met_cells :: "'p MET list"
  higgs_cells :: "'p HiggsBBCandidate list"
  kinfit_cells :: "FitResults list"

text \<open>
  The members of \<open>EventInfoBase\<close> that the analysed methods use. A null \<open>shared_ptr\<close> is
  \<open>None\<close>, \<open>mt2\<close> is a \<open>boost::optional\<close>. The borrowed record is immutable and held by
  value. The mutex, the trigger results, the event identifier, the mva score and the
  \<open>tuple_*\<close> backing stores are left out.
\<close>

record 'p EventInfoBase =
  event :: "'p Event"
  summaryInfo :: "'p SummaryInfo option"
  selected_htt_index :: nat
  selected_signal_jets :: SelectedSignalJets
  period :: Period
  jet_ordering :: JetOrdering
  leg1 :: "nat option"
  leg2 :: "nat option"
  jets :: "nat option"
  fatJets :: "nat option"
  met :: "nat option"
  higgs_bb :: "nat option"
  kinfit_results :: "nat option"
  mt2 :: "real option"

text \<open>
  Collaborators of the accessors that live outside the analysed sources: the pair-index
  key, the kinematic-fit solver, \<open>TMath::Prob\<close>, \<open>Calculate_MT2\<close> and the value of a
  default-constructed \<open>FitResults\<close>. The last three fields are the choice of the compiler
  for the three expressions whose operands have effects: C++ does not specify the order in
  which the arguments of a call (or the operands of \<open>+\<close>) are evaluated, so each
  expression comes with a rank of its argument positions (see \<open>eval_order\<close>).
\<close>

record 'p externals =
  CombinationPairToIndex :: "nat \<times> nat \<Rightarrow> nat \<Rightarrow> error + nat"
  Fit :: "'p \<Rightarrow> 'p \<Rightarrow> 'p \<Rightarrow> 'p \<Rightarrow> 'p MET \<Rightarrow> real \<Rightarrow> real \<Rightarrow> FitResults"
  Prob :: "real \<Rightarrow> nat \<Rightarrow> real"
  Calculate_MT2 :: "'p \<Rightarrow> 'p \<Rightarrow> 'p \<Rightarrow> 'p \<Rightarrow> 'p \<Rightarrow> real"
  FitResults_init :: FitResults
  Fit_rank :: "nat \<Rightarrow> nat"
  MT2_rank :: "nat \<Rightarrow> nat"
  Sum_rank :: "nat \<Rightarrow> nat"

subsection \<open>Methods as state transformers with exceptions\<close>

text \<open>
  A method runs on the instance and the store and returns a value or the exception it
  raised, together with the instance and the store as it left them.
\<close>

type_synonym ('p, 'a) meth =
  "'p EventInfoBase \<times> 'p Heap \<Rightarrow> (error + 'a) \<times> 'p EventInfoBase \<times> 'p Heap"

definition returnM :: "'a \<Rightarrow> ('p, 'a) meth" where
  "returnM x = (\<lambda>st. (Inr x, st))"

definition throwM :: "error \<Rightarrow> ('p, 'a) meth" where
  "throwM e = (\<lambda>st. (Inl e, st))"

definition bindM :: "('p, 'a) meth \<Rightarrow> ('a \<Rightarrow> ('p, 'b) meth) \<Rightarrow> ('p, 'b) meth" where
  "bindM m f = (\<lambda>st. case m st of (Inl e, st') \<Rightarrow> (Inl e, st') | (Inr x, st') \<Rightarrow> f x st')"

definition liftM :: "error + 'a \<Rightarrow> ('p, 'a) meth" where
  "liftM r = (\<lambda>st. (r, st))"

text \<open>\<open>std::vector::at\<close>.\<close>

definition at_index :: "'a list \<Rightarrow> nat \<Rightarrow> error + 'a" where
  "at_index xs i = (if i < length xs then Inr (xs ! i) else Inl OutOfRange)"

subsection \<open>Order of evaluation of the arguments of a call\<close>

text \<open>
  The arguments of a call are evaluated one after the other, each one completely, in an
  order that C++ leaves to the compiler. The order is a parameter of the model: the
  argument positions \<open>0 .. n - 1\<close> are visited by increasing rank, positions of equal rank
  from left to right. Every permutation of the positions is the order of some rank; the
  rank \<open>\<lambda>i. i\<close> is left to right, \<open>\<lambda>i. n - i\<close> right to left.

  \<open>eval_args\<close> evaluates the arguments in the given order and collects their values by
  position; the first exception ends the evaluation.
\<close>

definition eval_order :: "(nat \<Rightarrow> nat) \<Rightarrow> nat \<Rightarrow> nat list" where
  "eval_order rank n = sort_key rank [0 ..< n]"

fun eval_args ::
  "nat list \<Rightarrow> (nat \<Rightarrow> ('p, 'v) meth) \<Rightarrow> (nat \<Rightarrow> 'v option)
   \<Rightarrow> ('p, nat \<Rightarrow> 'v option) meth" where
  "eval_args [] arg vals = returnM vals"
| "eval_args (i # order) arg vals =
     bindM (arg i) (\<lambda>v. eval_args order arg (vals(i \<mapsto> v)))"

subsection \<open>Plain accessors\<close>

definition GetNJets :: "'p EventInfoBase \<Rightarrow> nat" where
  "GetNJets this = length (jets_p4 (event this))"

definition GetNFatJets :: "'p EventInfoBase \<Rightarrow> nat" where
  "GetNFatJets this = length (fatJets_p4 (event this))"

definition EventInfoBase_HasBjetPair :: "'p EventInfoBase \<Rightarrow> bool" where
  "EventInfoBase_HasBjetPair this = HasBjetPair (selected_signal_jets this) (GetNJets this)"

definition EventInfoBase_HasVBFjetPair :: "'p EventInfoBase \<Rightarrow> bool" where
  "EventInfoBase_HasVBFjetPair this = HasVBFPair (selected_signal_jets this) (GetNJets this)"

definition GetSummaryInfo :: "'p EventInfoBase \<Rightarrow> error + 'p SummaryInfo" where
  "GetSummaryInfo this =
     (case summaryInfo this of
        None \<Rightarrow> Inl (Exception ''SummaryInfo was not provided for this event.'')
      | Some s \<Rightarrow> Inr s)"

definition GetJecUncertainties :: "'p SummaryInfo \<Rightarrow> error + 'p JECUncertaintiesWrapper" where
  "GetJecUncertainties s =
     (case jecUncertainties s of
        None \<Rightarrow> Inl (Exception ''Jec Uncertainties not stored.'')
      | Some j \<Rightarrow> Inr j)"

definition GetLegIndex :: "'p EventInfoBase \<Rightarrow> nat \<Rightarrow> error + nat" where
  "GetLegIndex this leg_id =
     (if leg_id = 1 then at_index (first_daughter_indexes (event this)) (selected_htt_index this)
      else if leg_id = 2
        then at_index (second_daughter_indexes (event this)) (selected_htt_index this)
      else Inl (Exception ''Invalid leg id = %1%.''))"

subsection \<open>Memoized accessors\<close>

text \<open>
  Modelled from the spec: the constructors of \<open>ntuple::TupleLepton\<close> and
  \<open>analysis::LepCandidate\<close> are outside the analysed sources. The leg candidate for a
  lepton index carries that lepton's momentum and isolation; reading either array out of
  range raises as \<open>vector::at\<close> does.
\<close>

definition make_LepCandidate :: "'p Event \<Rightarrow> nat \<Rightarrow> error + 'p LepCandidate" where
  "make_LepCandidate ev i =
     (case at_index (lep_iso ev) i of
        Inl e \<Rightarrow> Inl e
      | Inr isolation \<Rightarrow>
          (case at_index (lep_p4 ev) i of
             Inl e \<Rightarrow> Inl e
           | Inr p \<Rightarrow> Inr \<lparr>lep_momentum = p, lep_isolation = isolation\<rparr>))"

definition GetFirstLeg :: "('p, 'p LepCandidate) meth" where
  "GetFirstLeg = (\<lambda>(this, h).
     case leg1 this of
       Some a \<Rightarrow> (Inr (leg_cells h ! a), this, h)
     | None \<Rightarrow>
         (case GetLegIndex this 1 of
            Inl e \<Rightarrow> (Inl e, this, h)
          | Inr i \<Rightarrow>
              (case make_LepCandidate (event this) i of
                 Inl e \<Rightarrow> (Inl e, this, h)
               | Inr l \<Rightarrow>
                   (Inr l, this\<lparr>leg1 := Some (length (leg_cells h))\<rparr>,
                    h\<lparr>leg_cells := leg_cells h @ [l]\<rparr>))))"

definition GetSecondLeg :: "('p, 'p LepCandidate) meth" where
  "GetSecondLeg = (\<lambda>(this, h).
     case leg2 this of
       Some a \<Rightarrow> (Inr (leg_cells h ! a), this, h)
     | None \<Rightarrow>
         (case GetLegIndex this 2 of
            Inl e \<Rightarrow> (Inl e, this, h)
          | Inr i \<Rightarrow>
              (case make_LepCandidate (event this) i of
                 Inl e \<Rightarrow> (Inl e, this, h)
               | Inr l \<Rightarrow>
                   (Inr l, this\<lparr>leg2 := Some (length (leg_cells h))\<rparr>,
                    h\<lparr>leg_cells := leg_cells h @ [l]\<rparr>))))"

text \<open>
  Modelled from the spec: \<open>GetLeg\<close> is declared in EventInfo.h, outside the analysed
  sources. Leg 1 and leg 2 are the two memoized leg candidates; any other index is an
  invalid-index error.
\<close>

definition GetLeg :: "nat \<Rightarrow> ('p, 'p LepCandidate) meth" where
  "GetLeg leg_id =
     (if leg_id = 1 then GetFirstLeg
      else if leg_id = 2 then GetSecondLeg
      else throwM (Exception ''Invalid leg id = %1%.''))"

definition GetJets :: "('p, 'p JetCollection) meth" where
  "GetJets = (\<lambda>(this, h).
     case jets this of
       Some a \<Rightarrow> (Inr (jets_cells h ! a), this, h)
     | None \<Rightarrow>
         (let js = map (\<lambda>n. \<lparr>jet_momentum = jets_p4 (event this) ! n, jet_id = n\<rparr>)
                     [0 ..< GetNJets this]
          in (Inr js, this\<lparr>jets := Some (length (jets_cells h))\<rparr>,
              h\<lparr>jets_cells := jets_cells h @ [js]\<rparr>)))"

definition SetJets :: "'p JetCollection \<Rightarrow> ('p, unit) meth" where
  "SetJets new_jets = (\<lambda>(this, h).
     (Inr (), this\<lparr>jets := Some (length (jets_cells h))\<rparr>,
      h\<lparr>jets_cells := jets_cells h @ [new_jets]\<rparr>))"

definition GetFatJets :: "('p, 'p FatJetCandidate list) meth" where
  "GetFatJets = (\<lambda>(this, h).
     case fatJets this of
       Some a \<Rightarrow> (Inr (fatJets_cells h ! a), this, h)
     | None \<Rightarrow>
         (let fs = map (\<lambda>n. \<lparr>fatjet_momentum = fatJets_p4 (event this) ! n, fatjet_id = n\<rparr>)
                     [0 ..< GetNFatJets this]
          in (Inr fs, this\<lparr>fatJets := Some (length (fatJets_cells h))\<rparr>,
              h\<lparr>fatJets_cells := fatJets_cells h @ [fs]\<rparr>)))"

definition GetMET :: "('p, 'p MET) meth" where
  "GetMET = (\<lambda>(this, h).
     case met this of
       Some a \<Rightarrow> (Inr (met_cells h ! a), this, h)
     | None \<Rightarrow>
         (let m = \<lparr>met_momentum = pfMET_p4 (event this), met_cov = pfMET_cov (event this)\<rparr>
          in (Inr m, this\<lparr>met := Some (length (met_cells h))\<rparr>,
              h\<lparr>met_cells := met_cells h @ [m]\<rparr>)))"

text \<open>
  Modelled from the spec: \<open>SetMetMomentum\<close> is defined in EventInfo.h, outside the
  analysed sources. Following the spec (the missing-energy candidate is built from the
  record's covariance and is replaced wholesale on a shift), it stores a new candidate with
  the given momentum and the record's covariance.
\<close>

definition SetMetMomentum :: "'p \<Rightarrow> ('p, unit) meth" where
  "SetMetMomentum new_met_p4 = (\<lambda>(this, h).
     (Inr (), this\<lparr>met := Some (length (met_cells h))\<rparr>,
      h\<lparr>met_cells := met_cells h
           @ [\<lparr>met_momentum = new_met_p4, met_cov = pfMET_cov (event this)\<rparr>]\<rparr>))"

definition GetVBFJet :: "nat \<Rightarrow> ('p, 'p JetCandidate) meth" where
  "GetVBFJet idx = (\<lambda>(this, h).
     if \<not> EventInfoBase_HasVBFjetPair this \<or> (idx \<noteq> 1 \<and> idx \<noteq> 2)
     then (Inl (Exception ''VBF jet not found.''), this, h)
     else bindM GetJets (\<lambda>js. liftM (at_index js
            (if idx = 1 then fst (selectedVBFjetPair (selected_signal_jets this))
             else snd (selectedVBFjetPair (selected_signal_jets this))))) (this, h))"

definition GetBJet :: "nat \<Rightarrow> ('p, 'p JetCandidate) meth" where
  "GetBJet idx = (\<lambda>(this, h).
     if \<not> EventInfoBase_HasBjetPair this \<or> (idx \<noteq> 1 \<and> idx \<noteq> 2)
     then (Inl (Exception ''B jet not found.''), this, h)
     else bindM GetJets (\<lambda>js. liftM (at_index js
            (if idx = 1 then fst (selectedBjetPair (selected_signal_jets this))
             else snd (selectedBjetPair (selected_signal_jets this))))) (this, h))"

definition GetHiggsBB :: "('p, 'p HiggsBBCandidate) meth" where
  "GetHiggsBB = (\<lambda>(this, h).
     if \<not> EventInfoBase_HasBjetPair this
     then (Inl (Exception ''Can't create H->bb candidate.''), this, h)
     else (case higgs_bb this of
             Some a \<Rightarrow> (Inr (higgs_cells h ! a), this, h)
           | None \<Rightarrow>
               bindM GetJets (\<lambda>js.
               bindM (liftM (at_index js (fst (selectedBjetPair (selected_signal_jets this)))))
                 (\<lambda>j1.
               bindM (liftM (at_index js (snd (selectedBjetPair (selected_signal_jets this)))))
                 (\<lambda>j2. (\<lambda>(this', h').
                   (Inr \<lparr>first_daughter = j1, second_daughter = j2\<rparr>,
                    this'\<lparr>higgs_bb := Some (length (higgs_cells h'))\<rparr>,
                    h'\<lparr>higgs_cells := higgs_cells h'
                         @ [\<lparr>first_daughter = j1, second_daughter = j2\<rparr>]\<rparr>)))))
               (this, h)))"

subsection \<open>GetKinFitResults\<close>

text \<open>\<open>std::find\<close> followed by \<open>std::distance\<close>: the position of the first occurrence.\<close>

fun find_pos :: "'a \<Rightarrow> 'a list \<Rightarrow> nat option" where
  "find_pos x [] = None"
| "find_pos x (y # ys) = (if y = x then Some 0 else map_option Suc (find_pos x ys))"

text \<open>An assignment through the \<open>kinfit_results\<close> pointer, and the final dereference.\<close>

definition write_kinfit :: "nat \<Rightarrow> (FitResults \<Rightarrow> FitResults) \<Rightarrow> ('p, unit) meth" where
  "write_kinfit a f = (\<lambda>(this, h).
     (Inr (), this, h\<lparr>kinfit_cells := (kinfit_cells h)[a := f (kinfit_cells h ! a)]\<rparr>))"

definition read_kinfit :: "nat \<Rightarrow> ('p, FitResults) meth" where
  "read_kinfit a = (\<lambda>(this, h). (Inr (kinfit_cells h ! a), this, h))"

text \<open>
  The solver branch (no precomputed entry). The two energy resolutions are computed first,
  one statement after the other (in each, both operands of the product call \<open>GetBJet\<close>
  with the same index: whichever comes first, the second call returns the jet already
  obtained, so it is not repeated here). Then the five arguments of \<open>Fit\<close> that are calls
  are evaluated in the order of \<open>Fit_rank\<close>: positions 0 and 1 are the momenta of the two
  legs, 2 and 3 those of the two b-jets (values \<open>Inl\<close>), position 4 is the missing energy
  (value \<open>Inr\<close>). The last two arguments are the local variables.
\<close>

definition Fit_argument :: "nat \<Rightarrow> ('p, 'p + 'p MET) meth" where
  "Fit_argument i =
     (if i = 0 then bindM (GetLeg 1) (\<lambda>l. returnM (Inl (lep_momentum l)))
      else if i = 1 then bindM (GetLeg 2) (\<lambda>l. returnM (Inl (lep_momentum l)))
      else if i = 2 then bindM (GetBJet 1) (\<lambda>b. returnM (Inl (jet_momentum b)))
      else if i = 3 then bindM (GetBJet 2) (\<lambda>b. returnM (Inl (jet_momentum b)))
      else bindM GetMET (\<lambda>m. returnM (Inr m)))"

definition kinfit_from_solver ::
  "'p kinematics \<Rightarrow> 'p externals \<Rightarrow> 'p Event \<Rightarrow> nat \<Rightarrow> ('p, FitResults) meth" where
  "kinfit_from_solver K X ev a =
     bindM (GetBJet 1) (\<lambda>b1.
     bindM (liftM (at_index (jets_resolution ev) (jet_id b1))) (\<lambda>r1.
     bindM (GetBJet 2) (\<lambda>b2.
     bindM (liftM (at_index (jets_resolution ev) (jet_id b2))) (\<lambda>r2.
     bindM (eval_args (eval_order (Fit_rank X) 5) Fit_argument (\<lambda>i. None)) (\<lambda>vals.
       let energy_resolution_1 = r1 * p4_E K (jet_momentum b1);
           energy_resolution_2 = r2 * p4_E K (jet_momentum b2);
           result = Fit X (projl (the (vals 0))) (projl (the (vals 1)))
                      (projl (the (vals 2))) (projl (the (vals 3))) (projr (the (vals 4)))
                      energy_resolution_1 energy_resolution_2
       in bindM (write_kinfit a (\<lambda>r. r\<lparr>convergence := convergence result,
                                         chi2 := chi2 result,
                                         probability := Prob X (chi2 result) 2,
                                         mass := mass result\<rparr>))
            (\<lambda>_. read_kinfit a))))))"

text \<open>The table branch: the entry at position \<open>index\<close> of the three side arrays.\<close>

definition kinfit_from_table ::
  "'p externals \<Rightarrow> 'p Event \<Rightarrow> nat \<Rightarrow> nat \<Rightarrow> ('p, FitResults) meth" where
  "kinfit_from_table X ev a idx =
     bindM (liftM (at_index (kinFit_convergence ev) idx)) (\<lambda>c.
     bindM (write_kinfit a (\<lambda>r. r\<lparr>convergence := c\<rparr>)) (\<lambda>_.
     bindM (liftM (at_index (kinFit_chi2 ev) idx)) (\<lambda>x.
     bindM (write_kinfit a (\<lambda>r. r\<lparr>chi2 := x, probability := Prob X x 2\<rparr>)) (\<lambda>_.
     bindM (liftM (at_index (kinFit_m ev) idx)) (\<lambda>m.
     bindM (write_kinfit a (\<lambda>r. r\<lparr>mass := m\<rparr>)) (\<lambda>_. read_kinfit a))))))"

definition GetKinFitResults ::
  "'p kinematics \<Rightarrow> 'p externals \<Rightarrow> ('p, FitResults) meth" where
  "GetKinFitResults K X = (\<lambda>(this, h).
     if \<not> EventInfoBase_HasBjetPair this
     then (Inl (Exception ''Can't retrieve KinFit results.''), this, h)
     else (case kinfit_results this of
             Some a \<Rightarrow> (Inr (kinfit_cells h ! a), this, h)
           | None \<Rightarrow>
               (case CombinationPairToIndex X (selectedBjetPair (selected_signal_jets this))
                       (GetNJets this) of
                  Inl e \<Rightarrow> (Inl e, this, h)
                | Inr pairId \<Rightarrow>
                    (let a = length (kinfit_cells h);
                         this1 = this\<lparr>kinfit_results := Some a\<rparr>;
                         h1 = h\<lparr>kinfit_cells := kinfit_cells h @ [FitResults_init X]\<rparr>
                     in case find_pos pairId (kinFit_jetPairId (event this)) of
                          None \<Rightarrow> kinfit_from_solver K X (event this) a (this1, h1)
                        | Some idx \<Rightarrow> kinfit_from_table X (event this) a idx (this1, h1)))))"

subsection \<open>GetMT2 and GetResonanceMomentum\<close>

text \<open>
  The five arguments of \<open>Calculate_MT2\<close>, evaluated in the order of \<open>MT2_rank\<close>: the
  momenta of the two legs, those of the two daughters of the Higgs-bb candidate (each a
  call of \<open>GetHiggsBB\<close>), and the missing-energy momentum of the record.
\<close>

definition MT2_argument :: "nat \<Rightarrow> ('p, 'p) meth" where
  "MT2_argument i =
     (if i = 0 then bindM (GetLeg 1) (\<lambda>l. returnM (lep_momentum l))
      else if i = 1 then bindM (GetLeg 2) (\<lambda>l. returnM (lep_momentum l))
      else if i = 2 then bindM GetHiggsBB (\<lambda>hb. returnM (jet_momentum (first_daughter hb)))
      else if i = 3 then bindM GetHiggsBB (\<lambda>hb. returnM (jet_momentum (second_daughter hb)))
      else (\<lambda>(this, h). (Inr (pfMET_p4 (event this)), this, h)))"

definition GetMT2 :: "'p externals \<Rightarrow> ('p, real) meth" where
  "GetMT2 X = (\<lambda>(this, h).
     case mt2 this of
       Some v \<Rightarrow> (Inr v, this, h)
     | None \<Rightarrow>
         bindM (eval_args (eval_order (MT2_rank X) 5) MT2_argument (\<lambda>i. None))
           (\<lambda>vals. (\<lambda>(this', h').
              let v = Calculate_MT2 X (the (vals 0)) (the (vals 1)) (the (vals 2))
                        (the (vals 3)) (the (vals 4))
              in (Inr v, this'\<lparr>mt2 := Some v\<rparr>, h')))
         (this, h))"

text \<open>The momentum of the composite candidate: the sum of its daughters.\<close>

definition HiggsBB_momentum :: "'p kinematics \<Rightarrow> 'p HiggsBBCandidate \<Rightarrow> 'p" where
  "HiggsBB_momentum K hb =
     p4_plus K (jet_momentum (first_daughter hb)) (jet_momentum (second_daughter hb))"

text \<open>
  \<open>GetHiggsTTMomentum\<close> is virtual and defined outside the analysed sources; it is the
  parameter \<open>HTT\<close>. The two operands of the sum on line 399 are evaluated in the order
  of \<open>Sum_rank\<close>.
\<close>

definition Sum_operand :: "(bool \<Rightarrow> ('p, 'p) meth) \<Rightarrow> 'p kinematics \<Rightarrow> bool \<Rightarrow> nat \<Rightarrow> ('p, 'p) meth" where
  "Sum_operand HTT K useSVfit i =
     (if i = 0 then HTT useSVfit
      else bindM GetHiggsBB (\<lambda>hb. returnM (HiggsBB_momentum K hb)))"

definition GetResonanceMomentum ::
  "'p kinematics \<Rightarrow> 'p externals \<Rightarrow> (bool \<Rightarrow> ('p, 'p) meth) \<Rightarrow> bool \<Rightarrow> bool
   \<Rightarrow> ('p, 'p) meth" where
  "GetResonanceMomentum K X HTT useSVfit addMET = (\<lambda>(this, h).
     if useSVfit \<and> addMET
     then (Inl (Exception ''Can't add MET and with SVfit applied.''), this, h)
     else bindM (eval_args (eval_order (Sum_rank X) 2) (Sum_operand HTT K useSVfit)
                   (\<lambda>i. None))
            (\<lambda>vals.
               let p = p4_plus K (the (vals 0)) (the (vals 1))
               in if addMET then bindM GetMET (\<lambda>m. returnM (p4_plus K p (met_momentum m)))
                  else returnM p)
          (this, h))"

subsection \<open>Construction, copy and ApplyShift\<close>

text \<open>
  The constructor: the selection is computed once, every cache slot is empty. (The trigger
  results it also fills are left out.)
\<close>

definition EventInfoBase_new ::
  "'p kinematics \<Rightarrow> 'p Event \<Rightarrow> nat \<Rightarrow> Period \<Rightarrow> JetOrdering \<Rightarrow> 'p SummaryInfo option
   \<Rightarrow> error + 'p EventInfoBase" where
  "EventInfoBase_new K ev idx per jo si =
     (case SelectSignalJets K ev per jo of
        Inl e \<Rightarrow> Inl e
      | Inr sel \<Rightarrow>
          Inr \<lparr>event = ev, summaryInfo = si, selected_htt_index = idx,
               selected_signal_jets = sel, period = per, jet_ordering = jo,
               leg1 = None, leg2 = None, jets = None, fatJets = None, met = None,
               higgs_bb = None, kinfit_results = None, mt2 = None\<rparr>)"

text \<open>
  Modelled from the spec: the copy constructor of \<open>EventInfoBase\<close> is declared in
  EventInfo.h, outside the analysed sources. Following the spec (copying yields an
  independent cache; the clone starts with an entirely empty derived-field cache, and the
  record reference, the selection, the period and the ordering policy carry over), the copy
  keeps the constructor arguments and the selection and resets every memoized slot. The run
  summary and the leg-pair index are kept as well: \<open>ApplyShift\<close> reads the summary from the
  copy.
\<close>

definition EventInfoBase_copy :: "'p EventInfoBase \<Rightarrow> 'p EventInfoBase" where
  "EventInfoBase_copy this =
     this\<lparr>leg1 := None, leg2 := None, jets := None, fatJets := None, met := None,
          higgs_bb := None, kinfit_results := None, mt2 := None\<rparr>"

text \<open>
  Lines 176-181 of \<open>ApplyShift\<close>, run on the copy: the jets and the missing energy of the
  copy are read, corrected by the collaborator and stored back.
\<close>

definition apply_corrections ::
  "'p JECUncertaintiesWrapper \<Rightarrow> UncertaintySource \<Rightarrow> UncertaintyScale \<Rightarrow> 'p list
   \<Rightarrow> ('p, unit) meth" where
  "apply_corrections jec uncertainty_source scale other_jets =
     bindM GetJets (\<lambda>js.
     bindM GetMET (\<lambda>m.
     bindM (SetJets (fst (jec js uncertainty_source scale other_jets (met_momentum m))))
       (\<lambda>_. SetMetMomentum
               (snd (jec js uncertainty_source scale other_jets (met_momentum m))))))"

text \<open>
  \<open>ApplyShift\<close> works on the copy only; of \<open>this\<close> it reads \<open>event->other_jets_p4\<close>. It
  returns the shifted instance, and \<open>this\<close> and the store as they are afterwards.
\<close>

definition ApplyShift ::
  "UncertaintySource \<Rightarrow> UncertaintyScale \<Rightarrow> 'p EventInfoBase \<times> 'p Heap
   \<Rightarrow> (error + 'p EventInfoBase) \<times> 'p EventInfoBase \<times> 'p Heap" where
  "ApplyShift uncertainty_source scale = (\<lambda>(this, h).
     let shifted_event_info = EventInfoBase_copy this in
     case GetSummaryInfo shifted_event_info of
       Inl e \<Rightarrow> (Inl e, this, h)
     | Inr summary \<Rightarrow>
         (case GetJecUncertainties summary of
            Inl e \<Rightarrow> (Inl e, this, h)
          | Inr jec \<Rightarrow>
              (case apply_corrections jec uncertainty_source scale
                      (other_jets_p4 (event this)) (shifted_event_info, h) of
                 (Inl e, shifted', h') \<Rightarrow> (Inl e, this, h')
               | (Inr u, shifted', h') \<Rightarrow> (Inr shifted', this, h'))))"

subsection \<open>Accessor calls\<close>




section \<open>Auxiliary notions used in the proofs\<close>

text \<open>The \<open>JetInfo\<close> entry that \<open>CreateJetInfo\<close> emplaces for jet \<open>n\<close>.\<close>

definition mk_JetInfo ::
  "'p kinematics \<Rightarrow> 'p Event \<Rightarrow> 'p BTagger \<Rightarrow> bool \<Rightarrow> nat \<Rightarrow> 'p JetInfo" where
  "mk_JetInfo K ev bTagger useBTag n =
     \<lparr>p4 = jets_p4 ev ! n, index = n,
      tag = (if useBTag then BTag bTagger ev n else p4_Pt K (jets_p4 ev ! n))\<rparr>"

text \<open>The two \<open>continue\<close> guards on the current selection, and the two on the jet itself.\<close>

definition unselected :: "SelectedSignalJets \<Rightarrow> nat \<Rightarrow> bool" where
  "unselected sel n \<longleftrightarrow> \<not> isSelectedBjet sel n \<and> \<not> isSelectedVBFjet sel n"

definition candidate :: "'p kinematics \<Rightarrow> 'p Event \<Rightarrow> Period \<Rightarrow> nat \<Rightarrow> bool" where
  "candidate K ev per n \<longleftrightarrow>
     PassEcalNoiceVetoJets K (jets_p4 ev ! n) per (jets_pu_id ev ! n)
     \<and> (jets_pu_id ev ! n) AND 2 \<noteq> 0"

text \<open>
  The order in which the double loop visits the position pairs \<open>(n, h)\<close>, \<open>n < h\<close>:
  lexicographic.
\<close>

definition lex_less :: "nat \<times> nat \<Rightarrow> nat \<times> nat \<Rightarrow> bool" where
  "lex_less a b \<longleftrightarrow> fst a < fst b \<or> (fst a = fst b \<and> snd a < snd b)"

definition pairs_from :: "nat \<Rightarrow> nat \<Rightarrow> (nat \<times> nat) list" where
  "pairs_from a len = concat (map (\<lambda>n. map (Pair n) [Suc n ..< len]) [a ..< len])"

text \<open>
  The comparison \<open>>=\<close> of IEEE 754 on the masses, and a rank that orders the values
  other than not-a-number as the comparisons do.
\<close>

fun double_ge :: "double \<Rightarrow> double \<Rightarrow> bool" where
  "double_ge NaN y = False"
| "double_ge x NaN = False"
| "double_ge x MinusInfinity = True"
| "double_ge MinusInfinity y = False"
| "double_ge PlusInfinity y = True"
| "double_ge (Finite x) PlusInfinity = False"
| "double_ge (Finite x) (Finite y) = (x \<ge> y)"

fun double_rank :: "double \<Rightarrow> nat \<times> real" where
  "double_rank NaN = (0, 0)"
| "double_rank MinusInfinity = (1, 0)"
| "double_rank (Finite x) = (2, x)"
| "double_rank PlusInfinity = (3, 0)"

text \<open>
  Jet \<open>n\<close> passes every cut of the b-tag ranking: the noise veto, the pile-up-id bit and
  the pt/eta thresholds of the tagger.
\<close>

definition passes_all_cuts ::
  "'p kinematics \<Rightarrow> 'p Event \<Rightarrow> Period \<Rightarrow> 'p BTagger \<Rightarrow> nat \<Rightarrow> bool" where
  "passes_all_cuts K ev per bTagger n \<longleftrightarrow>
     PassEcalNoiceVetoJets K (jets_p4 ev ! n) per (jets_pu_id ev ! n)
     \<and> (jets_pu_id ev ! n) AND 2 \<noteq> 0
     \<and> p4_Pt K (jets_p4 ev ! n) > PtCut bTagger
     \<and> \<bar>p4_eta K (jets_p4 ev ! n)\<bar> < EtaCut bTagger"

section \<open>Auxiliary notions for the cache\<close>

text \<open>
  Triples for methods: from every state satisfying \<open>P\<close>, a normal return with value \<open>x\<close>
  ends in a state satisfying \<open>Q x\<close>, an exception \<open>e\<close> in a state satisfying \<open>E e\<close>.
\<close>

definition hoare ::
  "('p EventInfoBase \<times> 'p Heap \<Rightarrow> bool) \<Rightarrow> ('p, 'a) meth
   \<Rightarrow> ('a \<Rightarrow> 'p EventInfoBase \<times> 'p Heap \<Rightarrow> bool)
   \<Rightarrow> (error \<Rightarrow> 'p EventInfoBase \<times> 'p Heap \<Rightarrow> bool) \<Rightarrow> bool" where
  "hoare P m Q E \<longleftrightarrow>
     (\<forall>st. P st \<longrightarrow> (case m st of (Inl e, st') \<Rightarrow> E e st' | (Inr x, st') \<Rightarrow> Q x st'))"

text \<open>A store extends another one when every region only grew at its end: no cell that
  existed before was freed or overwritten.\<close>

definition heap_extends :: "'p Heap \<Rightarrow> 'p Heap \<Rightarrow> bool" where
  "heap_extends h h' \<longleftrightarrow>
     prefix (leg_cells h) (leg_cells h') \<and> prefix (jets_cells h) (jets_cells h')
     \<and> prefix (fatJets_cells h) (fatJets_cells h') \<and> prefix (met_cells h) (met_cells h')
     \<and> prefix (higgs_cells h) (higgs_cells h') \<and> prefix (kinfit_cells h) (kinfit_cells h')"



text \<open>
  The members an instance never changes after construction: the record reference, the run
  summary, the leg-pair index, the selection, the period and the ordering policy.
\<close>

definition same_identity :: "'p EventInfoBase \<Rightarrow> 'p EventInfoBase \<Rightarrow> bool" where
  "same_identity this this' \<longleftrightarrow>
     event this' = event this \<and> summaryInfo this' = summaryInfo this
     \<and> selected_htt_index this' = selected_htt_index this
     \<and> selected_signal_jets this' = selected_signal_jets this
     \<and> period this' = period this \<and> jet_ordering this' = jet_ordering this"

text \<open>A state evolves into another one: same identity, extended store.\<close>

definition evolves ::
  "'p EventInfoBase \<times> 'p Heap \<Rightarrow> 'p EventInfoBase \<times> 'p Heap \<Rightarrow> bool" where
  "evolves st st' \<longleftrightarrow> same_identity (fst st) (fst st') \<and> heap_extends (snd st) (snd st')"

text \<open>A call leaves the kinematic-fit slot and its region alone.\<close>

definition kinfit_untouched ::
  "'p EventInfoBase \<times> 'p Heap \<Rightarrow> 'p EventInfoBase \<times> 'p Heap \<Rightarrow> bool" where
  "kinfit_untouched st st' \<longleftrightarrow>
     kinfit_results (fst st') = kinfit_results (fst st)
     \<and> kinfit_cells (snd st') = kinfit_cells (snd st)"


definition cached_leg1 :: "'p EventInfoBase \<times> 'p Heap \<Rightarrow> 'p LepCandidate option" where
  "cached_leg1 st = map_option (\<lambda>a. leg_cells (snd st) ! a) (leg1 (fst st))"

definition cached_leg2 :: "'p EventInfoBase \<times> 'p Heap \<Rightarrow> 'p LepCandidate option" where
  "cached_leg2 st = map_option (\<lambda>a. leg_cells (snd st) ! a) (leg2 (fst st))"

definition cached_jets :: "'p EventInfoBase \<times> 'p Heap \<Rightarrow> 'p JetCollection option" where
  "cached_jets st = map_option (\<lambda>a. jets_cells (snd st) ! a) (jets (fst st))"

definition cached_fatJets ::
  "'p EventInfoBase \<times> 'p Heap \<Rightarrow> 'p FatJetCandidate list option" where
  "cached_fatJets st = map_option (\<lambda>a. fatJets_cells (snd st) ! a) (fatJets (fst st))"

definition cached_met :: "'p EventInfoBase \<times> 'p Heap \<Rightarrow> 'p MET option" where
  "cached_met st = map_option (\<lambda>a. met_cells (snd st) ! a) (met (fst st))"

definition cached_higgs_bb :: "'p EventInfoBase \<times> 'p Heap \<Rightarrow> 'p HiggsBBCandidate option" where
  "cached_higgs_bb st = map_option (\<lambda>a. higgs_cells (snd st) ! a) (higgs_bb (fst st))"

definition cached_kinfit :: "'p EventInfoBase \<times> 'p Heap \<Rightarrow> FitResults option" where
  "cached_kinfit st = map_option (\<lambda>a. kinfit_cells (snd st) ! a) (kinfit_results (fst st))"

definition cached_mt2 :: "'p EventInfoBase \<times> 'p Heap \<Rightarrow> real option" where
  "cached_mt2 st = mt2 (fst st)"

definition cached_fields ::
  "'p EventInfoBase \<times> 'p Heap \<Rightarrow>
   'p LepCandidate option \<times> 'p LepCandidate option \<times> 'p JetCollection option
   \<times> 'p FatJetCandidate list option \<times> 'p MET option \<times> 'p HiggsBBCandidate option
   \<times> FitResults option \<times> real option" where
  "cached_fields st =
     (cached_leg1 st, cached_leg2 st, cached_jets st, cached_fatJets st, cached_met st,
      cached_higgs_bb st, cached_kinfit st, cached_mt2 st)"


section \<open>Concrete inputs\<close>

text \<open>
  Example collaborators over momenta written \<open>(pt, eta, phi, E)\<close>: the accessors read the
  stored coordinates, the tagger cuts at \<open>pt > 20\<close>, \<open>|eta| < 2.4\<close> and passes scores above
  \<open>0.3\<close>, the veto accepts every jet. The sum and the mass are simple stand-ins (the
  theorems below hold for every choice of them).
\<close>

type_synonym PtEtaPhiE = "real \<times> real \<times> real \<times> real"

definition ex_scores :: "real list" where
  "ex_scores = [9/10, 8/10, 1/10, 1/20]"

definition ex_BTagger :: "PtEtaPhiE BTagger" where
  "ex_BTagger =
     \<lparr>PtCut = 20, EtaCut = 24/10,
      BTag = (\<lambda>ev n. ex_scores ! n),
      Pass = (\<lambda>ev n. ex_scores ! n > 3/10)\<rparr>"

definition ex_K :: "PtEtaPhiE kinematics" where
  "ex_K =
     \<lparr>p4_Pt = (\<lambda>(pt, eta, phi, e). pt),
      p4_eta = (\<lambda>(pt, eta, phi, e). eta),
      p4_E = (\<lambda>(pt, eta, phi, e). e),
      p4_M = (\<lambda>(pt, eta, phi, e). Finite (e - pt)),
      p4_plus = (\<lambda>(pt1, eta1, phi1, e1) (pt2, eta2, phi2, e2).
                   (pt1 + pt2, eta1 + eta2, phi1 + phi2, e1 + e2)),
      PassEcalNoiceVetoJets = (\<lambda>p per pu. True),
      make_BTagger = (\<lambda>per jo. ex_BTagger),
      vbf_pt_cut = 30, vbf_eta_cut = 5\<rparr>"

definition ex_event :: "PtEtaPhiE list \<Rightarrow> PtEtaPhiE Event" where
  "ex_event js =
     \<lparr>jets_p4 = js, jets_pu_id = replicate (length js) 7,
      jets_resolution = replicate (length js) (1/10),
      other_jets_p4 = [], fatJets_p4 = [],
      pfMET_p4 = (30, 0, 1, 30), pfMET_cov = (1, 0, 0, 1),
      lep_p4 = [(40, 1/2, 0, 45), (35, -1/2, 3, 40)], lep_iso = [1/10, 1/10],
      kinFit_jetPairId = [], kinFit_convergence = [], kinFit_chi2 = [], kinFit_m = [],
      first_daughter_indexes = [0], second_daughter_indexes = [1]\<rparr>"

text \<open>Two central b-tagged jets and two forward jets.\<close>

definition ev_bb_vbf :: "PtEtaPhiE Event" where
  "ev_bb_vbf = ex_event [(80, 1/2, 0, 100), (60, -1, 1, 90), (50, 3, 2, 500), (40, -7/2, -2, 600)]"

text \<open>A single jet that passes every cut.\<close>

definition ev_one_jet :: "PtEtaPhiE Event" where
  "ev_one_jet = ex_event [(80, 1/2, 0, 100)]"

text \<open>
  Three jets: the second one is forward (outside the b-tag eta window), the third one is
  central with a score below the working point.
\<close>

definition ev_second_fails :: "PtEtaPhiE Event" where
  "ev_second_fails = ex_event [(80, 1/2, 0, 100), (60, 3, 1, 600), (50, -1, 2, 80)]"

text \<open>Three jets: two central tagged jets and a soft third jet below the pt threshold.\<close>

definition ev_three :: "PtEtaPhiE Event" where
  "ev_three = ex_event [(80, 1/2, 0, 100), (60, -1, 1, 90), (15, 0, 2, 20)]"

definition sel_one_jet :: SelectedSignalJets where
  "sel_one_jet =
     \<lparr>selectedBjetPair = (0, UndefinedJetIndex), selectedVBFjetPair = UndefinedJetPair,
      n_bjets = 1\<rparr>"

definition sel_bb_vbf :: SelectedSignalJets where
  "sel_bb_vbf = \<lparr>selectedBjetPair = (0, 1), selectedVBFjetPair = (2, 3), n_bjets = 2\<rparr>"

definition sel_second_fails :: SelectedSignalJets where
  "sel_second_fails =
     \<lparr>selectedBjetPair = (0, 2), selectedVBFjetPair = UndefinedJetPair, n_bjets = 2\<rparr>"

definition bjets_second_fails :: "PtEtaPhiE JetInfo list" where
  "bjets_second_fails =
     [\<lparr>p4 = (80, 1/2, 0, 100), index = 0, tag = 9/10\<rparr>,
      \<lparr>p4 = (50, -1, 2, 80), index = 2, tag = 1/10\<rparr>]"


text \<open>
  A second set of example collaborators, over momenta whose energy is a \<open>double\<close>: the
  energy of a jet can be not-a-number, and so can the mass of a pair that contains it.
  \<open>double_plus\<close> is the IEEE 754 sum (without rounding). The energy accessor, which the
  selection does not call, reads \<open>0\<close> where the energy is not finite.
\<close>

type_synonym PtEtaPhiE_fp = "real \<times> real \<times> real \<times> double"

fun double_plus :: "double \<Rightarrow> double \<Rightarrow> double" where
  "double_plus NaN y = NaN"
| "double_plus x NaN = NaN"
| "double_plus MinusInfinity PlusInfinity = NaN"
| "double_plus PlusInfinity MinusInfinity = NaN"
| "double_plus MinusInfinity y = MinusInfinity"
| "double_plus x MinusInfinity = MinusInfinity"
| "double_plus PlusInfinity y = PlusInfinity"
| "double_plus x PlusInfinity = PlusInfinity"
| "double_plus (Finite x) (Finite y) = Finite (x + y)"

definition ex_scores_fp :: "real list" where
  "ex_scores_fp = [9/10, 8/10, 1/10, 1/20, 1/20, 1/20]"

definition ex_BTagger_fp :: "PtEtaPhiE_fp BTagger" where
  "ex_BTagger_fp =
     \<lparr>PtCut = 20, EtaCut = 24/10,
      BTag = (\<lambda>ev n. ex_scores_fp ! n),
      Pass = (\<lambda>ev n. ex_scores_fp ! n > 3/10)\<rparr>"

definition ex_K_fp :: "PtEtaPhiE_fp kinematics" where
  "ex_K_fp =
     \<lparr>p4_Pt = (\<lambda>(pt, eta, phi, e). pt),
      p4_eta = (\<lambda>(pt, eta, phi, e). eta),
      p4_E = (\<lambda>(pt, eta, phi, e). case e of Finite x \<Rightarrow> x | _ \<Rightarrow> 0),
      p4_M = (\<lambda>(pt, eta, phi, e). double_plus e (Finite (- pt))),
      p4_plus = (\<lambda>(pt1, eta1, phi1, e1) (pt2, eta2, phi2, e2).
                   (pt1 + pt2, eta1 + eta2, phi1 + phi2, double_plus e1 e2)),
      PassEcalNoiceVetoJets = (\<lambda>p per pu. True),
      make_BTagger = (\<lambda>per jo. ex_BTagger_fp),
      vbf_pt_cut = 30, vbf_eta_cut = 5\<rparr>"

text \<open>
  Two central b-tagged jets and four forward jets. The forward jet of highest pt has a
  not-a-number energy; of the three pairs of the other forward jets, the last two have
  the same mass.
\<close>

definition ev_vbf_nan :: "PtEtaPhiE_fp Event" where
  "ev_vbf_nan =
     \<lparr>jets_p4 = [(80, 1/2, 0, Finite 100), (60, -1, 1, Finite 90), (70, 3, 2, NaN),
                 (50, -3, 2, Finite 500), (45, 7/2, -2, Finite 495),
                 (40, -7/2, -2, Finite 505)],
      jets_pu_id = [7, 7, 7, 7, 7, 7],
      jets_resolution = [1/10, 1/10, 1/10, 1/10, 1/10, 1/10],
      other_jets_p4 = [], fatJets_p4 = [],
      pfMET_p4 = (30, 0, 1, Finite 30), pfMET_cov = (1, 0, 0, 1),
      lep_p4 = [(40, 1/2, 0, Finite 45), (35, -1/2, 3, Finite 40)], lep_iso = [1/10, 1/10],
      kinFit_jetPairId = [], kinFit_convergence = [], kinFit_chi2 = [], kinFit_m = [],
      first_daughter_indexes = [0], second_daughter_indexes = [1]\<rparr>"

definition sel_vbf_nan :: SelectedSignalJets where
  "sel_vbf_nan = \<lparr>selectedBjetPair = (0, 1), selectedVBFjetPair = (3, 5), n_bjets = 2\<rparr>"

definition vbf_nan :: "PtEtaPhiE_fp JetInfo list" where
  "vbf_nan =
     [\<lparr>p4 = (70, 3, 2, NaN), index = 2, tag = 70\<rparr>,
      \<lparr>p4 = (50, -3, 2, Finite 500), index = 3, tag = 50\<rparr>,
      \<lparr>p4 = (45, 7/2, -2, Finite 495), index = 4, tag = 45\<rparr>,
      \<lparr>p4 = (40, -7/2, -2, Finite 505), index = 5, tag = 40\<rparr>]"
section \<open>Concrete instances\<close>


definition ex_double :: "PtEtaPhiE \<Rightarrow> PtEtaPhiE" where
  "ex_double = (\<lambda>(pt, eta, phi, e). (2 * pt, eta, phi, 2 * e))"

definition ex_jec :: "PtEtaPhiE JECUncertaintiesWrapper" where
  "ex_jec = (\<lambda>js src scale other m.
     (map (\<lambda>j. j\<lparr>jet_momentum := ex_double (jet_momentum j)\<rparr>) js,
      (case m of (pt, eta, phi, e) \<Rightarrow> (pt / 2, eta, phi, e / 2))))"

definition ex_summary :: "PtEtaPhiE SummaryInfo" where
  "ex_summary = \<lparr>jecUncertainties = Some ex_jec\<rparr>"


text \<open>A freshly constructed instance over a record and its selection.\<close>

definition ex_instance :: "PtEtaPhiE Event \<Rightarrow> SelectedSignalJets \<Rightarrow> PtEtaPhiE EventInfoBase" where
  "ex_instance ev sel =
     \<lparr>event = ev, summaryInfo = Some ex_summary, selected_htt_index = 0,
      selected_signal_jets = sel, period = 0, jet_ordering = 0,
      leg1 = None, leg2 = None, jets = None, fatJets = None, met = None,
      higgs_bb = None, kinfit_results = None, mt2 = None\<rparr>"

text \<open>Two jets, both forming the b-jet pair; no run summary is needed.\<close>

definition ev_two :: "PtEtaPhiE Event" where
  "ev_two = ex_event [(80, 1/2, 0, 100), (60, -1, 1, 90)]"

definition sel_two :: SelectedSignalJets where
  "sel_two = \<lparr>selectedBjetPair = (0, 1), selectedVBFjetPair = UndefinedJetPair, n_bjets = 2\<rparr>"


text \<open>The same record with a precomputed kinematic-fit table; the key of pair \<open>(0, 1)\<close>
  is \<open>0\<close>, found at position 1.\<close>

definition ev_two_table :: "PtEtaPhiE Event" where
  "ev_two_table =
     ev_two\<lparr>kinFit_jetPairId := [5, 0], kinFit_convergence := [1, 2],
            kinFit_chi2 := [3, 4], kinFit_m := [300, 310]\<rparr>"

definition inst_two_table :: "PtEtaPhiE EventInfoBase" where
  "inst_two_table = ex_instance ev_two_table sel_two"

text \<open>The instance over the single-jet record: no b-jet pair.\<close>

definition inst_one_jet :: "PtEtaPhiE EventInfoBase" where
  "inst_one_jet = ex_instance ev_one_jet sel_one_jet"




section \<open>Properties of the candidate lists\<close>

lemma index_mk_JetInfo [simp]: "index (mk_JetInfo K ev bt u n) = n"
  by (simp add: mk_JetInfo_def)

lemma set_OrderJets: "set (OrderJets K js True a b) = {j \<in> set js. PassHardCut K a b j}"
  by (simp add: OrderJets_def)

lemma CreateJetInfo_loop_Cons:
  "CreateJetInfo_loop K ev per bt sel u (n # ns) =
     (if \<not> unselected sel n then CreateJetInfo_loop K ev per bt sel u ns
      else if length (jets_pu_id ev) \<le> n then Inl OutOfRange
      else if \<not> candidate K ev per n then CreateJetInfo_loop K ev per bt sel u ns
      else (case CreateJetInfo_loop K ev per bt sel u ns of
              Inl e \<Rightarrow> Inl e
            | Inr rest \<Rightarrow> Inr (mk_JetInfo K ev bt u n # rest)))"
  by (simp add: unselected_def candidate_def mk_JetInfo_def split: sum.split)

lemma CreateJetInfo_loop_eq:
  "CreateJetInfo_loop K ev per bt sel u ns =
     (if \<forall>n\<in>set ns. unselected sel n \<longrightarrow> n < length (jets_pu_id ev)
      then Inr (map (mk_JetInfo K ev bt u)
                  (filter (\<lambda>n. unselected sel n \<and> candidate K ev per n) ns))
      else Inl OutOfRange)"
proof (induction ns)
  case Nil
  show ?case by simp
next
  case (Cons n ns)
  show ?case
    unfolding CreateJetInfo_loop_Cons Cons.IH
    by (auto simp: not_le)
qed

lemma CreateJetInfo_Inr:
  assumes "CreateJetInfo K ev per bt sel u = Inr js"
  shows "js = map (mk_JetInfo K ev bt u)
                (filter (\<lambda>n. unselected sel n \<and> candidate K ev per n)
                   [0 ..< length (jets_p4 ev)])"
  using assms unfolding CreateJetInfo_def CreateJetInfo_loop_eq by (simp split: if_splits)

lemma distinct_index_OrderJets:
  assumes d: "distinct (map index js)"
  shows "distinct (map index (OrderJets K js True a b))"
proof -
  have "mset (map index (OrderJets K js True a b))
      = mset (map index (filter (PassHardCut K a b) js))"
    by (simp add: OrderJets_def)
  moreover have "distinct (map index (filter (PassHardCut K a b) js))"
    using d by (simp add: distinct_map_filter)
  ultimately show ?thesis using mset_eq_imp_distinct_iff by blast
qed

lemma CreateJetInfo_props:
  assumes "CreateJetInfo K ev per bt sel u = Inr js"
  shows "distinct (map index js)"
    and "\<And>j. j \<in> set js \<Longrightarrow> index j < length (jets_p4 ev) \<and> unselected sel (index j)
            \<and> candidate K ev per (index j) \<and> j = mk_JetInfo K ev bt u (index j)"
proof -
  note eq = CreateJetInfo_Inr[OF assms]
  show "distinct (map index js)"
    unfolding eq by (simp add: comp_def)
  fix j assume "j \<in> set js"
  then show "index j < length (jets_p4 ev) \<and> unselected sel (index j)
            \<and> candidate K ev per (index j) \<and> j = mk_JetInfo K ev bt u (index j)"
    unfolding eq by auto
qed

lemma ordered_props:
  assumes "CreateJetInfo K ev per bt sel u = Inr js"
  shows "distinct (map index (OrderJets K js True a b))"
    and "\<And>j. j \<in> set (OrderJets K js True a b) \<Longrightarrow>
            index j < length (jets_p4 ev) \<and> unselected sel (index j) \<and> PassHardCut K a b j
            \<and> candidate K ev per (index j) \<and> j = mk_JetInfo K ev bt u (index j)"
  using CreateJetInfo_props[OF assms] distinct_index_OrderJets[of js K a b]
  by (simp_all add: set_OrderJets)

lemma distinct_index_nth:
  "distinct (map index L) \<Longrightarrow> i < length L \<Longrightarrow> j < length L \<Longrightarrow> i \<noteq> j \<Longrightarrow>
   index (L ! i) \<noteq> index (L ! j)"
  by (metis length_map nth_eq_iff_index_eq nth_map)

lemma unselected_init:
  "n < UndefinedJetIndex \<Longrightarrow> unselected SelectedSignalJets_init n"
  by (simp add: unselected_def isSelectedBjet_def isSelectedVBFjet_def
      SelectedSignalJets_init_def UndefinedJetPair_def)

lemma unselectedD:
  "unselected s n \<Longrightarrow> fst (selectedBjetPair s) \<noteq> n \<and> snd (selectedBjetPair s) \<noteq> n
     \<and> fst (selectedVBFjetPair s) \<noteq> n \<and> snd (selectedVBFjetPair s) \<noteq> n"
  by (auto simp: unselected_def isSelectedBjet_def isSelectedVBFjet_def)

lemma bjets_ordered_props:
  assumes "bjets_ordered K ev per jo = Inr L"
  shows "distinct (map index L)"
    and "\<And>j. j \<in> set L \<Longrightarrow> index j < length (jets_p4 ev)"
  using assms ordered_props[where K = K and ev = ev and per = per
      and bt = "make_BTagger K per jo" and sel = SelectedSignalJets_init and u = True]
  by (auto simp: bjets_ordered_def Let_def split: sum.splits)

lemma vbf_jets_ordered_props:
  assumes "vbf_jets_ordered K ev per jo sel = Inr L"
  shows "distinct (map index L)"
    and "\<And>j. j \<in> set L \<Longrightarrow> index j < length (jets_p4 ev) \<and> unselected sel (index j)"
  using assms ordered_props[where K = K and ev = ev and per = per
      and bt = "make_BTagger K per jo" and sel = sel and u = False]
  by (auto simp: vbf_jets_ordered_def Let_def split: sum.splits)

lemma new_bjets_ordered_props:
  assumes "new_bjets_ordered K ev per jo sel = Inr L"
  shows "distinct (map index L)"
    and "\<And>j. j \<in> set L \<Longrightarrow> index j < length (jets_p4 ev) \<and> unselected sel (index j)"
  using assms ordered_props[where K = K and ev = ev and per = per
      and bt = "make_BTagger K per jo" and sel = sel and u = True]
  by (auto simp: new_bjets_ordered_def Let_def split: sum.splits)

lemma new_bjets_subset:
  assumes b: "bjets_ordered K ev per jo = Inr bjets"
    and n: "new_bjets_ordered K ev per jo sel = Inr L"
    and bound: "length (jets_p4 ev) \<le> UndefinedJetIndex"
  shows "set L = {j \<in> set bjets. unselected sel (index j)}"
proof -
  let ?bt = "make_BTagger K per jo"
  from b obtain js0 where
    c0: "CreateJetInfo K ev per ?bt SelectedSignalJets_init True = Inr js0"
    and b0: "bjets = OrderJets K js0 True (PtCut ?bt) (EtaCut ?bt)"
    by (auto simp: bjets_ordered_def Let_def split: sum.splits)
  from n obtain js1 where c1: "CreateJetInfo K ev per ?bt sel True = Inr js1"
    and b1: "L = OrderJets K js1 True (PtCut ?bt) (EtaCut ?bt)"
    by (auto simp: new_bjets_ordered_def Let_def split: sum.splits)
  have "set js1 = {j \<in> set js0. unselected sel (index j)}"
    unfolding CreateJetInfo_Inr[OF c0] CreateJetInfo_Inr[OF c1]
    using bound by (auto simp: unselected_init)
  then show ?thesis unfolding b0 b1 set_OrderJets by auto
qed

section \<open>The maximum-mass loop\<close>

lemma fold_concat_nested: "fold f (concat xss) acc = fold (fold f) xss acc"
  by (induction xss arbitrary: acc) simp_all

lemma vbf_loop_pairs:
  "vbf_loop K vbf acc =
     fold (\<lambda>p. vbf_step K vbf (fst p) (snd p)) (pairs_from 0 (length vbf)) acc"
  by (simp add: vbf_loop_def pairs_from_def fold_concat_nested fold_map comp_def)

lemma set_pairs_from:
  "set (pairs_from a len) = {(n, h). a \<le> n \<and> n < h \<and> h < len}"
  by (force simp: pairs_from_def)

lemma pairs_from_rec:
  "a < len \<Longrightarrow> pairs_from a len = map (Pair a) [Suc a ..< len] @ pairs_from (Suc a) len"
  by (simp add: pairs_from_def upt_conv_Cons)

lemma pairs_from_Nil: "len \<le> a \<Longrightarrow> pairs_from a len = []"
  by (simp add: pairs_from_def)

lemma sorted_pairs_from: "sorted_wrt lex_less (pairs_from a len)"
proof (induction "len - a" arbitrary: a)
  case 0
  then show ?case by (simp add: pairs_from_Nil)
next
  case (Suc d)
  then have lt: "a < len" and d: "d = len - Suc a" by auto
  have 1: "sorted_wrt lex_less (map (Pair a) [Suc a ..< len])"
    by (simp add: sorted_wrt_map lex_less_def)
  have 2: "sorted_wrt lex_less (pairs_from (Suc a) len)" using Suc.hyps(1)[OF d] .
  have 3: "\<forall>x\<in>set (map (Pair a) [Suc a ..< len]). \<forall>y\<in>set (pairs_from (Suc a) len).
             lex_less x y"
    by (auto simp: set_pairs_from lex_less_def)
  show ?case unfolding pairs_from_rec[OF lt] sorted_wrt_append using 1 2 3 by blast
qed

text \<open>A fold that replaces its candidate only on a strictly greater value ends on the
  first maximum among the values that are numbers, or keeps its start when no value
  exceeds minus infinity.\<close>

lemma double_gt_rank:
  "double_gt x y \<longleftrightarrow> x \<noteq> NaN \<and> y \<noteq> NaN \<and> double_rank y < double_rank x"
  by (cases x; cases y) simp_all

lemma double_ge_rank:
  "double_ge x y \<longleftrightarrow> x \<noteq> NaN \<and> y \<noteq> NaN \<and> double_rank y \<le> double_rank x"
  by (cases x; cases y) simp_all

lemma fold_first_max:
  fixes m :: "'a \<Rightarrow> double" and g :: "'a \<Rightarrow> 'b"
  assumes step: "\<And>p acc. stp p acc = (if double_gt (m p) (fst acc) then (m p, g p) else acc)"
  shows "(fold stp ps (MinusInfinity, pr0) = (MinusInfinity, pr0)
          \<and> (\<forall>i<length ps. \<not> double_gt (m (ps ! i)) MinusInfinity))
       \<or> (\<exists>k<length ps. fold stp ps (MinusInfinity, pr0) = (m (ps ! k), g (ps ! k))
            \<and> double_gt (m (ps ! k)) MinusInfinity
            \<and> (\<forall>i<length ps. m (ps ! i) = NaN \<or> double_ge (m (ps ! k)) (m (ps ! i)))
            \<and> (\<forall>i<k. m (ps ! i) = NaN \<or> double_gt (m (ps ! k)) (m (ps ! i))))"
proof (induction ps rule: rev_induct)
  case Nil
  then show ?case by simp
next
  case (snoc p ps)
  from snoc.IH show ?case
  proof (elim disjE conjE exE)
    assume f: "fold stp ps (MinusInfinity, pr0) = (MinusInfinity, pr0)"
      and no: "\<forall>i<length ps. \<not> double_gt (m (ps ! i)) MinusInfinity"
    show ?thesis
    proof (cases "double_gt (m p) MinusInfinity")
      case True
      have 1: "fold stp (ps @ [p]) (MinusInfinity, pr0) = (m p, g p)"
        using True by (simp add: f step)
      have 2: "\<forall>i<length ps. m (ps ! i) = NaN \<or> double_gt (m p) (m (ps ! i))"
        using no True by (auto simp: double_gt_rank)
      have 3: "\<forall>i<length (ps @ [p]). m ((ps @ [p]) ! i) = NaN
                 \<or> double_ge (m p) (m ((ps @ [p]) ! i))"
        using 2 True by (auto simp: nth_append less_Suc_eq double_gt_rank double_ge_rank)
      have 4: "\<forall>i<length ps. m ((ps @ [p]) ! i) = NaN \<or> double_gt (m p) (m ((ps @ [p]) ! i))"
        using 2 by (simp add: nth_append)
      show ?thesis
        by (rule disjI2, rule exI[of _ "length ps"]) (use 1 3 4 True in simp)
    next
      case False
      have 1: "fold stp (ps @ [p]) (MinusInfinity, pr0) = (MinusInfinity, pr0)"
        using False by (simp add: f step)
      have 2: "\<forall>i<length (ps @ [p]). \<not> double_gt (m ((ps @ [p]) ! i)) MinusInfinity"
        using no False by (auto simp: nth_append less_Suc_eq)
      show ?thesis using 1 2 by blast
    qed
  next
    fix k
    assume k: "k < length ps"
      and f: "fold stp ps (MinusInfinity, pr0) = (m (ps ! k), g (ps ! k))"
      and pos: "double_gt (m (ps ! k)) MinusInfinity"
      and mx: "\<forall>i<length ps. m (ps ! i) = NaN \<or> double_ge (m (ps ! k)) (m (ps ! i))"
      and fs: "\<forall>i<k. m (ps ! i) = NaN \<or> double_gt (m (ps ! k)) (m (ps ! i))"
    show ?thesis
    proof (cases "double_gt (m p) (m (ps ! k))")
      case True
      have 1: "fold stp (ps @ [p]) (MinusInfinity, pr0) = (m p, g p)"
        using True by (simp add: f step)
      have 0: "double_gt (m p) MinusInfinity"
        using True pos by (auto simp: double_gt_rank)
      have 2: "\<forall>i<length ps. m (ps ! i) = NaN \<or> double_gt (m p) (m (ps ! i))"
        using mx True by (auto simp: double_gt_rank double_ge_rank)
      have 3: "\<forall>i<length (ps @ [p]). m ((ps @ [p]) ! i) = NaN
                 \<or> double_ge (m p) (m ((ps @ [p]) ! i))"
        using 2 True by (auto simp: nth_append less_Suc_eq double_gt_rank double_ge_rank)
      have 4: "\<forall>i<length ps. m ((ps @ [p]) ! i) = NaN \<or> double_gt (m p) (m ((ps @ [p]) ! i))"
        using 2 by (simp add: nth_append)
      show ?thesis
        by (rule disjI2, rule exI[of _ "length ps"]) (use 0 1 3 4 in simp)
    next
      case False
      have 1: "fold stp (ps @ [p]) (MinusInfinity, pr0) = (m (ps ! k), g (ps ! k))"
        using False by (simp add: f step)
      have 3: "\<forall>i<length (ps @ [p]). m ((ps @ [p]) ! i) = NaN
                 \<or> double_ge (m (ps ! k)) (m ((ps @ [p]) ! i))"
        using mx False pos by (auto simp: nth_append less_Suc_eq double_gt_rank double_ge_rank)
      have 4: "\<forall>i<k. m ((ps @ [p]) ! i) = NaN \<or> double_gt (m (ps ! k)) (m ((ps @ [p]) ! i))"
        using fs k by (simp add: nth_append)
      show ?thesis
        by (rule disjI2, rule exI[of _ k]) (use k 1 3 4 pos in \<open>simp add: nth_append\<close>)
    qed
  qed
qed

lemma vbf_loop_short:
  "length vbf < 2 \<Longrightarrow> vbf_loop K vbf acc = acc"
proof -
  assume "length vbf < 2"
  then have "pairs_from 0 (length vbf) = []"
    by (cases vbf; cases "tl vbf") (auto simp: pairs_from_def)
  then show ?thesis by (simp add: vbf_loop_pairs)
qed

lemma vbf_loop_max:
  "vbf_loop K vbf (MinusInfinity, pr) = (MinusInfinity, pr)
   \<or> (\<exists>n h. n < h \<and> h < length vbf
           \<and> vbf_loop K vbf (MinusInfinity, pr)
               = (mjj K vbf n h, (index (vbf ! n), index (vbf ! h)))
           \<and> double_gt (mjj K vbf n h) MinusInfinity
           \<and> (\<forall>n' h'. n' < h' \<longrightarrow> h' < length vbf
                  \<longrightarrow> mjj K vbf n' h' = NaN \<or> double_ge (mjj K vbf n h) (mjj K vbf n' h'))
           \<and> (\<forall>n' h'. n' < h' \<longrightarrow> h' < length vbf \<longrightarrow> lex_less (n', h') (n, h)
                  \<longrightarrow> mjj K vbf n' h' = NaN \<or> double_gt (mjj K vbf n h) (mjj K vbf n' h')))"
proof -
  let ?ps = "pairs_from 0 (length vbf)"
  let ?m = "\<lambda>p. mjj K vbf (fst p) (snd p)"
  let ?g = "\<lambda>p. (index (vbf ! fst p), index (vbf ! snd p))"
  have mem: "\<And>n h. (n, h) \<in> set ?ps \<longleftrightarrow> n < h \<and> h < length vbf"
    by (simp add: set_pairs_from)
  have step: "\<And>p acc. vbf_step K vbf (fst p) (snd p) acc
                 = (if double_gt (?m p) (fst acc) then (?m p, ?g p) else acc)"
    by (simp add: vbf_step_def)
  from fold_first_max[where stp = "\<lambda>p. vbf_step K vbf (fst p) (snd p)" and m = ?m and g = ?g,
        OF step, of ?ps pr]
  consider "fold (\<lambda>p. vbf_step K vbf (fst p) (snd p)) ?ps (MinusInfinity, pr)
              = (MinusInfinity, pr)"
    | k where "k < length ?ps"
      "fold (\<lambda>p. vbf_step K vbf (fst p) (snd p)) ?ps (MinusInfinity, pr)
              = (?m (?ps ! k), ?g (?ps ! k))"
      "double_gt (?m (?ps ! k)) MinusInfinity"
      "\<forall>i<length ?ps. ?m (?ps ! i) = NaN \<or> double_ge (?m (?ps ! k)) (?m (?ps ! i))"
      "\<forall>i<k. ?m (?ps ! i) = NaN \<or> double_gt (?m (?ps ! k)) (?m (?ps ! i))"
    by blast
  then show ?thesis
  proof cases
    case 1
    then show ?thesis by (simp add: vbf_loop_pairs)
  next
    case 2
    note k = 2(1) and f = 2(2) and pos = 2(3) and mx = 2(4) and fs = 2(5)
    obtain n h where nh: "?ps ! k = (n, h)" by (cases "?ps ! k")
    have "(n, h) \<in> set ?ps" using k nh by (metis nth_mem)
    then have nh_ok: "n < h" "h < length vbf" by (simp_all add: mem)
    have A: "vbf_loop K vbf (MinusInfinity, pr)
               = (mjj K vbf n h, (index (vbf ! n), index (vbf ! h)))"
      using f nh by (simp add: vbf_loop_pairs)
    have P: "double_gt (mjj K vbf n h) MinusInfinity" using pos nh by simp
    have B: "mjj K vbf n' h' = NaN \<or> double_ge (mjj K vbf n h) (mjj K vbf n' h')"
      if "n' < h'" "h' < length vbf" for n' h'
    proof -
      from that have "(n', h') \<in> set ?ps" by (simp add: mem)
      then obtain i where "i < length ?ps" "?ps ! i = (n', h')" by (auto simp: in_set_conv_nth)
      then show ?thesis using mx nh by fastforce
    qed
    have C: "mjj K vbf n' h' = NaN \<or> double_gt (mjj K vbf n h) (mjj K vbf n' h')"
      if "n' < h'" "h' < length vbf" "lex_less (n', h') (n, h)" for n' h'
    proof -
      from that have "(n', h') \<in> set ?ps" by (simp add: mem)
      then obtain i where i: "i < length ?ps" "?ps ! i = (n', h')"
        by (auto simp: in_set_conv_nth)
      have "i < k"
      proof (rule ccontr)
        assume "\<not> i < k"
        then consider "i = k" | "k < i" by linarith
        then show False
        proof cases
          case 1
          then show ?thesis using i nh that(3) by (simp add: lex_less_def)
        next
          case 2
          then have "lex_less (?ps ! k) (?ps ! i)"
            using sorted_pairs_from[of 0 "length vbf"] i(1)
            by (simp add: sorted_wrt_iff_nth_less)
          then show ?thesis using i nh that(3) by (auto simp: lex_less_def)
        qed
      qed
      then show ?thesis using fs i nh by fastforce
    qed
    show ?thesis using nh_ok A P B C by blast
  qed
qed

section \<open>The stages of SelectSignalJets\<close>

lemma select_bjets_simps:
  "selectedVBFjetPair (select_bjets bt ev bjets) = UndefinedJetPair"
  "n_bjets (select_bjets bt ev bjets) = length bjets"
  "fst (selectedBjetPair (select_bjets bt ev bjets)) =
     (if 1 \<le> length bjets then index (bjets ! 0) else UndefinedJetIndex)"
  "snd (selectedBjetPair (select_bjets bt ev bjets)) =
     (if 2 \<le> length bjets \<and> Pass bt ev (index (bjets ! 1)) then index (bjets ! 1)
      else UndefinedJetIndex)"
  by (simp_all add: select_bjets_def SelectedSignalJets_init_def UndefinedJetPair_def Let_def)

lemma select_vbf_simps:
  "selectedBjetPair (select_vbf K vbf s) = selectedBjetPair s"
  "n_bjets (select_vbf K vbf s) = n_bjets s"
  "selectedVBFjetPair (select_vbf K vbf s)
     = snd (vbf_loop K vbf (MinusInfinity, selectedVBFjetPair s))"
  by (simp_all add: select_vbf_def)

lemma vbf_pair_shape:
  assumes "selectedVBFjetPair s = UndefinedJetPair"
  shows "selectedVBFjetPair (select_vbf K vbf s) = UndefinedJetPair
       \<or> (\<exists>n h. n < h \<and> h < length vbf
             \<and> selectedVBFjetPair (select_vbf K vbf s) = (index (vbf ! n), index (vbf ! h))
             \<and> double_gt (mjj K vbf n h) MinusInfinity
             \<and> (\<forall>n' h'. n' < h' \<longrightarrow> h' < length vbf
                    \<longrightarrow> mjj K vbf n' h' = NaN \<or> double_ge (mjj K vbf n h) (mjj K vbf n' h'))
             \<and> (\<forall>n' h'. n' < h' \<longrightarrow> h' < length vbf \<longrightarrow> lex_less (n', h') (n, h)
                    \<longrightarrow> mjj K vbf n' h' = NaN
                        \<or> double_gt (mjj K vbf n h) (mjj K vbf n' h')))"
  using vbf_loop_max[of K vbf UndefinedJetPair] unfolding select_vbf_simps assms
  by (elim disjE exE conjE) (simp, rule disjI2, simp, blast)

lemma s3_vbf_facts:
  assumes v: "vbf_jets_ordered K ev per jo s2 = Inr vbf"
    and u: "selectedVBFjetPair s2 = UndefinedJetPair"
  shows "selectedVBFjetPair (select_vbf K vbf s2) = UndefinedJetPair
       \<or> (fst (selectedVBFjetPair (select_vbf K vbf s2)) < length (jets_p4 ev)
          \<and> snd (selectedVBFjetPair (select_vbf K vbf s2)) < length (jets_p4 ev)
          \<and> fst (selectedVBFjetPair (select_vbf K vbf s2))
              \<noteq> snd (selectedVBFjetPair (select_vbf K vbf s2))
          \<and> unselected s2 (fst (selectedVBFjetPair (select_vbf K vbf s2)))
          \<and> unselected s2 (snd (selectedVBFjetPair (select_vbf K vbf s2))))"
proof -
  from vbf_pair_shape[OF u, of K vbf]
  consider "selectedVBFjetPair (select_vbf K vbf s2) = UndefinedJetPair"
    | n h where "n < h" "h < length vbf"
      "selectedVBFjetPair (select_vbf K vbf s2) = (index (vbf ! n), index (vbf ! h))"
    by blast
  then show ?thesis
  proof cases
    case 1
    then show ?thesis by simp
  next
    case 2
    then have "vbf ! n \<in> set vbf" "vbf ! h \<in> set vbf" by simp_all
    then have "index (vbf ! n) < length (jets_p4 ev)" "unselected s2 (index (vbf ! n))"
      "index (vbf ! h) < length (jets_p4 ev)" "unselected s2 (index (vbf ! h))"
      using vbf_jets_ordered_props(2)[OF v] by blast+
    moreover have "index (vbf ! n) \<noteq> index (vbf ! h)"
      using distinct_index_nth[OF vbf_jets_ordered_props(1)[OF v], of n h] 2 by simp
    ultimately show ?thesis using 2(3) by simp
  qed
qed

text \<open>The four ways in which a call of \<open>SelectSignalJets\<close> returns.\<close>

lemma SelectSignalJets_cases:
  assumes "SelectSignalJets K ev per jo = Inr sel"
  obtains bjets vbf where
    "bjets_ordered K ev per jo = Inr bjets"
    "vbf_jets_ordered K ev per jo (select_bjets (make_BTagger K per jo) ev bjets) = Inr vbf"
    "HasBjetPair (select_vbf K vbf (select_bjets (make_BTagger K per jo) ev bjets))
       (length (jets_p4 ev))"
    "sel = select_vbf K vbf (select_bjets (make_BTagger K per jo) ev bjets)"
  | bjets vbf new_bjets where
    "bjets_ordered K ev per jo = Inr bjets"
    "vbf_jets_ordered K ev per jo (select_bjets (make_BTagger K per jo) ev bjets) = Inr vbf"
    "\<not> HasBjetPair (select_vbf K vbf (select_bjets (make_BTagger K per jo) ev bjets))
         (length (jets_p4 ev))"
    "new_bjets_ordered K ev per jo
       (select_vbf K vbf (select_bjets (make_BTagger K per jo) ev bjets)) = Inr new_bjets"
    "1 \<le> length new_bjets"
    "sel = (select_vbf K vbf (select_bjets (make_BTagger K per jo) ev bjets))
             \<lparr>selectedBjetPair :=
                (fst (selectedBjetPair (select_bjets (make_BTagger K per jo) ev bjets)),
                 index (new_bjets ! 0))\<rparr>"
  | bjets vbf where
    "bjets_ordered K ev per jo = Inr bjets"
    "vbf_jets_ordered K ev per jo (select_bjets (make_BTagger K per jo) ev bjets) = Inr vbf"
    "\<not> HasBjetPair (select_vbf K vbf (select_bjets (make_BTagger K per jo) ev bjets))
         (length (jets_p4 ev))"
    "new_bjets_ordered K ev per jo
       (select_vbf K vbf (select_bjets (make_BTagger K per jo) ev bjets)) = Inr []"
    "2 \<le> length bjets"
    "sel = (select_vbf K vbf (select_bjets (make_BTagger K per jo) ev bjets))
             \<lparr>selectedVBFjetPair := UndefinedJetPair,
              selectedBjetPair :=
                (fst (selectedBjetPair (select_bjets (make_BTagger K per jo) ev bjets)),
                 index (bjets ! 1))\<rparr>"
  | bjets vbf where
    "bjets_ordered K ev per jo = Inr bjets"
    "vbf_jets_ordered K ev per jo (select_bjets (make_BTagger K per jo) ev bjets) = Inr vbf"
    "\<not> HasBjetPair (select_vbf K vbf (select_bjets (make_BTagger K per jo) ev bjets))
         (length (jets_p4 ev))"
    "new_bjets_ordered K ev per jo
       (select_vbf K vbf (select_bjets (make_BTagger K per jo) ev bjets)) = Inr []"
    "length bjets < 2"
    "sel = (select_vbf K vbf (select_bjets (make_BTagger K per jo) ev bjets))
             \<lparr>selectedVBFjetPair := UndefinedJetPair\<rparr>"
proof -
  from assms obtain bjets where b: "bjets_ordered K ev per jo = Inr bjets"
    by (auto simp: SelectSignalJets_def split: sum.splits)
  define s2 where "s2 = select_bjets (make_BTagger K per jo) ev bjets"
  from assms b obtain vbf where v: "vbf_jets_ordered K ev per jo s2 = Inr vbf"
    by (auto simp: SelectSignalJets_def Let_def s2_def split: sum.splits)
  define s3 where "s3 = select_vbf K vbf s2"
  show thesis
  proof (cases "HasBjetPair s3 (length (jets_p4 ev))")
    case True
    with assms b v have "sel = s3"
      by (simp add: SelectSignalJets_def Let_def s2_def[symmetric] s3_def[symmetric])
    with that(1) b v True show ?thesis unfolding s3_def s2_def by blast
  next
    case False
    with assms b v obtain nb where n: "new_bjets_ordered K ev per jo s3 = Inr nb"
      by (auto simp: SelectSignalJets_def Let_def s2_def[symmetric] s3_def[symmetric]
          split: sum.splits)
    have r: "Inr sel =
              (if length nb \<ge> 1
               then Inr (s3\<lparr>selectedBjetPair := (fst (selectedBjetPair s3), index (nb ! 0))\<rparr>)
               else
                 let s4 = s3\<lparr>selectedVBFjetPair := UndefinedJetPair\<rparr> in
                 if length bjets \<ge> 2
                 then Inr (s4\<lparr>selectedBjetPair :=
                                (fst (selectedBjetPair s4), index (bjets ! 1))\<rparr>)
                 else Inr s4)"
      using assms b v n False
      by (auto simp add: SelectSignalJets_def Let_def s2_def[symmetric] s3_def[symmetric])
    have fs: "fst (selectedBjetPair s3) = fst (selectedBjetPair s2)"
      by (simp add: s3_def select_vbf_simps)
    consider "1 \<le> length nb" | "nb = []" "2 \<le> length bjets" | "nb = []" "length bjets < 2"
      by (cases nb; cases "2 \<le> length bjets") auto
    then show ?thesis
    proof cases
      case 1
      with r have "sel = s3\<lparr>selectedBjetPair := (fst (selectedBjetPair s2), index (nb ! 0))\<rparr>"
        by (simp add: fs)
      with that(2) b v False n 1 show ?thesis unfolding s3_def s2_def by blast
    next
      case 2
      with r have "sel = s3\<lparr>selectedVBFjetPair := UndefinedJetPair,
              selectedBjetPair := (fst (selectedBjetPair s2), index (bjets ! 1))\<rparr>"
        by (simp add: fs Let_def)
      with that(3) b v False n 2 show ?thesis unfolding s3_def s2_def by blast
    next
      case 3
      with r have "sel = s3\<lparr>selectedVBFjetPair := UndefinedJetPair\<rparr>"
        by (simp add: Let_def)
      with that(4) b v False n 3 show ?thesis unfolding s3_def s2_def by blast
    qed
  qed
qed

lemma bjets_index0:
  assumes "bjets_ordered K ev per jo = Inr bjets" "1 \<le> length bjets"
  shows "index (bjets ! 0) < length (jets_p4 ev)"
proof -
  have "bjets ! 0 \<in> set bjets" using assms(2) by (cases bjets) auto
  then show ?thesis using bjets_ordered_props(2)[OF assms(1)] by blast
qed

lemma bjets_index1:
  assumes "bjets_ordered K ev per jo = Inr bjets" "2 \<le> length bjets"
  shows "index (bjets ! 1) < length (jets_p4 ev)"
proof -
  have "1 < length bjets" using assms(2) by simp
  then have "bjets ! 1 \<in> set bjets" by (rule nth_mem)
  then show ?thesis using bjets_ordered_props(2)[OF assms(1)] by blast
qed

lemma bjets_index_distinct:
  assumes "bjets_ordered K ev per jo = Inr bjets" "2 \<le> length bjets"
  shows "index (bjets ! 0) \<noteq> index (bjets ! 1)"
proof -
  have "0 < length bjets" "1 < length bjets" "(0::nat) \<noteq> 1" using assms(2) by auto
  from distinct_index_nth[OF bjets_ordered_props(1)[OF assms(1)] this] show ?thesis .
qed

section \<open>Which jets the ranked lists hold\<close>

lemma bjets_ordered_indices:
  assumes b: "bjets_ordered K ev per jo = Inr bjets"
    and bound: "length (jets_p4 ev) \<le> UndefinedJetIndex"
  shows "mset (map index bjets)
       = mset (filter (passes_all_cuts K ev per (make_BTagger K per jo))
                 [0 ..< length (jets_p4 ev)])"
proof -
  let ?bt = "make_BTagger K per jo"
  let ?idx = "[0 ..< length (jets_p4 ev)]"
  from b obtain js0 where
    c0: "CreateJetInfo K ev per ?bt SelectedSignalJets_init True = Inr js0"
    and b0: "bjets = OrderJets K js0 True (PtCut ?bt) (EtaCut ?bt)"
    by (auto simp: bjets_ordered_def Let_def split: sum.splits)
  have "mset (map index bjets) = mset (map index (filter (PassHardCut K (PtCut ?bt) (EtaCut ?bt)) js0))"
    unfolding b0 by (simp add: OrderJets_def)
  also have "map index (filter (PassHardCut K (PtCut ?bt) (EtaCut ?bt)) js0)
      = filter (\<lambda>n. PassHardCut K (PtCut ?bt) (EtaCut ?bt) (mk_JetInfo K ev ?bt True n))
          (filter (\<lambda>n. unselected SelectedSignalJets_init n \<and> candidate K ev per n) ?idx)"
    unfolding CreateJetInfo_Inr[OF c0] by (simp add: filter_map comp_def)
  also have "\<dots> = filter (passes_all_cuts K ev per ?bt) ?idx"
    using bound
    by (auto simp: passes_all_cuts_def candidate_def PassHardCut_def mk_JetInfo_def unselected_init
        intro!: filter_cong)
  finally show ?thesis .
qed

lemma bjets_ordered_length:
  assumes "bjets_ordered K ev per jo = Inr bjets"
    and "length (jets_p4 ev) \<le> UndefinedJetIndex"
  shows "length bjets = length (filter (passes_all_cuts K ev per (make_BTagger K per jo))
                 [0 ..< length (jets_p4 ev)])"
  using bjets_ordered_indices[OF assms] by (metis length_map size_mset)

lemma vbf_jets_ordered_indices:
  assumes v: "vbf_jets_ordered K ev per jo s = Inr vbf"
    and u: "selectedVBFjetPair s = UndefinedJetPair"
    and bound: "length (jets_p4 ev) \<le> UndefinedJetIndex"
  shows "set (map index vbf) =
          {n. n < length (jets_p4 ev) \<and> \<not> isSelectedBjet s n \<and> candidate K ev per n
              \<and> vbf_pt_cut K < p4_Pt K (jets_p4 ev ! n)
              \<and> \<bar>p4_eta K (jets_p4 ev ! n)\<bar> < vbf_eta_cut K}"
proof -
  let ?bt = "make_BTagger K per jo"
  from v obtain js where c: "CreateJetInfo K ev per ?bt s False = Inr js"
    and e: "vbf = OrderJets K js True (vbf_pt_cut K) (vbf_eta_cut K)"
    by (auto simp: vbf_jets_ordered_def Let_def split: sum.splits)
  have un: "unselected s n \<longleftrightarrow> \<not> isSelectedBjet s n" if "n < length (jets_p4 ev)" for n
    using that bound u
    by (auto simp: unselected_def isSelectedVBFjet_def UndefinedJetPair_def)
  have "set (map index vbf)
      = set (map index (filter (PassHardCut K (vbf_pt_cut K) (vbf_eta_cut K)) js))"
    unfolding e by (simp add: set_OrderJets)
  also have "map index (filter (PassHardCut K (vbf_pt_cut K) (vbf_eta_cut K)) js)
      = filter (\<lambda>n. PassHardCut K (vbf_pt_cut K) (vbf_eta_cut K) (mk_JetInfo K ev ?bt False n))
          (filter (\<lambda>n. unselected s n \<and> candidate K ev per n) [0 ..< length (jets_p4 ev)])"
    unfolding CreateJetInfo_Inr[OF c] by (simp add: filter_map comp_def)
  also have "set \<dots> = {n. n < length (jets_p4 ev) \<and> \<not> isSelectedBjet s n \<and> candidate K ev per n
              \<and> vbf_pt_cut K < p4_Pt K (jets_p4 ev ! n)
              \<and> \<bar>p4_eta K (jets_p4 ev ! n)\<bar> < vbf_eta_cut K}"
    by (auto simp: un PassHardCut_def mk_JetInfo_def)
  finally show ?thesis .
qed

section \<open>Reasoning about methods\<close>

lemma hoareI:
  assumes "\<And>st r st'. P st \<Longrightarrow> m st = (r, st') \<Longrightarrow>
             (case r of Inl e \<Rightarrow> E e st' | Inr x \<Rightarrow> Q x st')"
  shows "hoare P m Q E"
  unfolding hoare_def
proof (intro allI impI)
  fix st assume p: "P st"
  obtain r st' where e: "m st = (r, st')" by (cases "m st")
  from assms[OF p e] show "case m st of (Inl e, st') \<Rightarrow> E e st' | (Inr x, st') \<Rightarrow> Q x st'"
    by (simp add: e split: sum.splits)
qed

lemma hoareD:
  assumes "hoare P m Q E" "P st" "m st = (r, st')"
  shows "case r of Inl e \<Rightarrow> E e st' | Inr x \<Rightarrow> Q x st'"
proof -
  from assms(1)[unfolded hoare_def, rule_format, OF assms(2)]
  show ?thesis by (simp add: assms(3) split: sum.splits)
qed

lemma hoare_bindM:
  assumes f: "\<And>x. hoare (R x) (f x) Q E" and m: "hoare P m R E"
  shows "hoare P (bindM m f) Q E"
proof (rule hoareI)
  fix st r st'
  assume p: "P st" and b: "bindM m f st = (r, st')"
  obtain r1 st1 where e: "m st = (r1, st1)" by (cases "m st")
  note d = hoareD[OF m p e]
  show "case r of Inl e \<Rightarrow> E e st' | Inr x \<Rightarrow> Q x st'"
  proof (cases r1)
    case (Inl e1)
    then show ?thesis using b e d by (auto simp: bindM_def)
  next
    case (Inr x)
    then have "f x st1 = (r, st')" "R x st1" using b e d by (auto simp: bindM_def)
    from hoareD[OF f this(2) this(1)] show ?thesis .
  qed
qed

lemma hoare_liftM:
  "hoare (\<lambda>st. case r of Inl e \<Rightarrow> E e st | Inr x \<Rightarrow> Q x st) (liftM r) Q E"
  by (rule hoareI) (simp add: liftM_def)

lemma hoare_returnM: "hoare (Q x) (returnM x) Q E"
  by (rule hoareI) (auto simp: returnM_def)

lemma hoare_throwM: "hoare (E e) (throwM e) Q E"
  by (rule hoareI) (auto simp: throwM_def)

lemma hoare_conseq:
  assumes "hoare P' m Q' E'"
    and "\<And>st. P st \<Longrightarrow> P' st"
    and "\<And>x st. Q' x st \<Longrightarrow> Q x st"
    and "\<And>e st. E' e st \<Longrightarrow> E e st"
  shows "hoare P m Q E"
proof (rule hoareI)
  fix st r st' assume "P st" "m st = (r, st')"
  then have "case r of Inl e \<Rightarrow> E' e st' | Inr x \<Rightarrow> Q' x st'"
    using hoareD[OF assms(1) assms(2)] by blast
  then show "case r of Inl e \<Rightarrow> E e st' | Inr x \<Rightarrow> Q x st'"
    using assms(3,4) by (cases r) simp_all
qed

lemma hoare_inv_liftM: "hoare I (liftM r) (\<lambda>_. I) (\<lambda>_. I)"
  by (rule hoareI) (simp add: liftM_def split: sum.splits)

lemma hoare_inv_returnM: "hoare I (returnM x) (\<lambda>_. I) (\<lambda>_. I)"
  by (rule hoareI) (auto simp: returnM_def)

lemma hoare_eval_args:
  assumes "\<And>i. hoare I (arg i) (\<lambda>_. I) (\<lambda>_. I)"
  shows "hoare I (eval_args order arg vals) (\<lambda>_. I) (\<lambda>_. I)"
proof (induction order arbitrary: vals)
  case Nil
  show ?case by (simp add: hoare_inv_returnM)
next
  case (Cons i order)
  show ?case by (simp, rule hoare_bindM, rule Cons, rule assms)
qed

lemma hoare_bind_returnM:
  assumes "hoare I m (\<lambda>_. I) (\<lambda>_. I)"
  shows "hoare I (bindM m (\<lambda>x. returnM (f x))) (\<lambda>_. I) (\<lambda>_. I)"
  by (rule hoare_bindM, rule hoare_inv_returnM, rule assms)

subsection \<open>What each accessor changes\<close>

lemma evolves_refl: "evolves st st"
  by (simp add: evolves_def same_identity_def heap_extends_def)

lemma evolves_trans: "evolves a b \<Longrightarrow> evolves b c \<Longrightarrow> evolves a c"
  by (auto simp: evolves_def same_identity_def heap_extends_def intro: prefix_order.trans)

lemma kinfit_untouched_refl: "kinfit_untouched st st"
  by (simp add: kinfit_untouched_def)

lemma kinfit_untouched_trans:
  "kinfit_untouched a b \<Longrightarrow> kinfit_untouched b c \<Longrightarrow> kinfit_untouched a c"
  by (simp add: kinfit_untouched_def)

lemma GetJets_effect:
  "evolves st (snd (GetJets st)) \<and> kinfit_untouched st (snd (GetJets st))"
  by (cases st)
     (simp add: GetJets_def Let_def evolves_def same_identity_def heap_extends_def
        kinfit_untouched_def split: option.split)

lemma GetFatJets_effect:
  "evolves st (snd (GetFatJets st)) \<and> kinfit_untouched st (snd (GetFatJets st))"
  by (cases st)
     (simp add: GetFatJets_def Let_def evolves_def same_identity_def heap_extends_def
        kinfit_untouched_def split: option.split)

lemma GetMET_effect:
  "evolves st (snd (GetMET st)) \<and> kinfit_untouched st (snd (GetMET st))"
  by (cases st)
     (simp add: GetMET_def Let_def evolves_def same_identity_def heap_extends_def
        kinfit_untouched_def split: option.split)

lemma GetFirstLeg_effect:
  "evolves st (snd (GetFirstLeg st)) \<and> kinfit_untouched st (snd (GetFirstLeg st))"
  by (cases st)
     (simp add: GetFirstLeg_def Let_def evolves_def same_identity_def heap_extends_def
        kinfit_untouched_def split: option.split sum.split)

lemma GetSecondLeg_effect:
  "evolves st (snd (GetSecondLeg st)) \<and> kinfit_untouched st (snd (GetSecondLeg st))"
  by (cases st)
     (simp add: GetSecondLeg_def Let_def evolves_def same_identity_def heap_extends_def
        kinfit_untouched_def split: option.split sum.split)

lemma GetLeg_effect:
  "evolves st (snd (GetLeg i st)) \<and> kinfit_untouched st (snd (GetLeg i st))"
  using GetFirstLeg_effect[of st] GetSecondLeg_effect[of st]
  by (simp add: GetLeg_def throwM_def evolves_refl kinfit_untouched_refl)

lemma SetJets_effect:
  "evolves st (snd (SetJets js st)) \<and> kinfit_untouched st (snd (SetJets js st))"
  by (cases st)
     (simp add: SetJets_def evolves_def same_identity_def heap_extends_def kinfit_untouched_def)

lemma SetMetMomentum_effect:
  "evolves st (snd (SetMetMomentum p st)) \<and> kinfit_untouched st (snd (SetMetMomentum p st))"
  by (cases st)
     (simp add: SetMetMomentum_def evolves_def same_identity_def heap_extends_def
        kinfit_untouched_def)

lemma bind_liftM_state:
  "snd (bindM m (\<lambda>x. liftM (g x)) st) = snd (m st)"
  by (cases "m st") (auto simp: bindM_def liftM_def split: sum.splits)

lemma bind_returnM_state:
  "snd (bindM m (\<lambda>x. returnM (g x)) st) = snd (m st)"
  by (cases "m st") (auto simp: bindM_def returnM_def split: sum.splits)

lemma GetBJet_effect:
  "evolves st (snd (GetBJet i st)) \<and> kinfit_untouched st (snd (GetBJet i st))"
proof (cases st)
  case (Pair this h)
  show ?thesis
    using GetJets_effect[of st]
    by (simp add: Pair GetBJet_def bind_liftM_state evolves_refl kinfit_untouched_refl)
qed

lemma GetVBFJet_effect:
  "evolves st (snd (GetVBFJet i st)) \<and> kinfit_untouched st (snd (GetVBFJet i st))"
proof (cases st)
  case (Pair this h)
  show ?thesis
    using GetJets_effect[of st]
    by (simp add: Pair GetVBFJet_def bind_liftM_state evolves_refl kinfit_untouched_refl)
qed

lemma hoare_evolves:
  assumes "\<And>st. evolves st (snd (A st))"
  shows "hoare (evolves st0) A (\<lambda>_. evolves st0) (\<lambda>_. evolves st0)"
proof (rule hoareI)
  fix st r st' assume "evolves st0 st" "A st = (r, st')"
  then have "evolves st0 st'" using assms[of st] evolves_trans by fastforce
  then show "case r of Inl e \<Rightarrow> evolves st0 st' | Inr x \<Rightarrow> evolves st0 st'"
    by (simp split: sum.splits)
qed

lemma hoare_kinfit_slot:
  assumes "\<And>st. kinfit_untouched st (snd (A st))"
  shows "hoare (\<lambda>st. kinfit_results (fst st) = Some a) A
           (\<lambda>_ st. kinfit_results (fst st) = Some a) (\<lambda>_ st. kinfit_results (fst st) = Some a)"
proof (rule hoareI)
  fix st r st' assume "kinfit_results (fst st) = Some a" "A st = (r, st')"
  then have "kinfit_results (fst st') = Some a"
    using assms[of st] by (simp add: kinfit_untouched_def)
  then show "case r of Inl e \<Rightarrow> kinfit_results (fst st') = Some a
             | Inr x \<Rightarrow> kinfit_results (fst st') = Some a"
    by (simp split: sum.splits)
qed

lemma prefix_list_update:
  "prefix xs ys \<Longrightarrow> length xs \<le> a \<Longrightarrow> prefix xs (ys[a := v])"
  by (auto simp: prefix_def list_update_append)

lemma write_kinfit_evolves:
  assumes "length (kinfit_cells (snd st0)) \<le> a"
  shows "hoare (evolves st0) (write_kinfit a f) (\<lambda>_. evolves st0) (\<lambda>_. evolves st0)"
proof (rule hoareI)
  fix st r st' assume e: "evolves st0 st" and w: "write_kinfit a f st = (r, st')"
  obtain this h where st: "st = (this, h)" by (cases st)
  have "evolves st0 st'"
    using e w assms
    by (auto simp: st write_kinfit_def evolves_def heap_extends_def same_identity_def
        intro: prefix_list_update)
  then show "case r of Inl e \<Rightarrow> evolves st0 st' | Inr x \<Rightarrow> evolves st0 st'"
    by (simp split: sum.splits)
qed

lemma read_kinfit_inv: "hoare I (read_kinfit a) (\<lambda>_. I) (\<lambda>_. I)"
  by (rule hoareI) (auto simp: read_kinfit_def)

lemma write_kinfit_slot:
  "hoare (\<lambda>st. kinfit_results (fst st) = Some a) (write_kinfit b f)
     (\<lambda>_ st. kinfit_results (fst st) = Some a) (\<lambda>_ st. kinfit_results (fst st) = Some a)"
  by (rule hoareI) (auto simp: write_kinfit_def)

lemma read_kinfit_result:
  "hoare (\<lambda>st. kinfit_results (fst st) = Some a) (read_kinfit a)
     (\<lambda>v st. kinfit_results (fst st) = Some a \<and> v = kinfit_cells (snd st) ! a)
     (\<lambda>_ st. kinfit_results (fst st) = Some a)"
  by (rule hoareI) (auto simp: read_kinfit_def)

lemmas effects =
  GetJets_effect GetFatJets_effect GetMET_effect GetFirstLeg_effect GetSecondLeg_effect
  GetLeg_effect GetBJet_effect GetVBFJet_effect SetJets_effect SetMetMomentum_effect

lemma Fit_argument_evolves:
  "hoare (evolves st0) (Fit_argument i) (\<lambda>_. evolves st0) (\<lambda>_. evolves st0)"
  by (rule hoare_evolves) (simp add: Fit_argument_def bind_returnM_state effects)

lemma Fit_arguments_evolves:
  "hoare (evolves st0) (eval_args order Fit_argument vals) (\<lambda>_. evolves st0) (\<lambda>_. evolves st0)"
  by (rule hoare_eval_args) (rule Fit_argument_evolves)

lemma kinfit_from_solver_evolves:
  assumes "length (kinfit_cells (snd st0)) \<le> a"
  shows "hoare (evolves st0) (kinfit_from_solver K X ev a) (\<lambda>_. evolves st0) (\<lambda>_. evolves st0)"
  unfolding kinfit_from_solver_def Let_def
  by (rule hoare_bindM read_kinfit_inv write_kinfit_evolves[OF assms] hoare_inv_liftM
      Fit_arguments_evolves hoare_evolves effects[THEN conjunct1])+

lemma kinfit_from_table_evolves:
  assumes "length (kinfit_cells (snd st0)) \<le> a"
  shows "hoare (evolves st0) (kinfit_from_table X ev a idx) (\<lambda>_. evolves st0) (\<lambda>_. evolves st0)"
  unfolding kinfit_from_table_def
  by (rule hoare_bindM read_kinfit_inv write_kinfit_evolves[OF assms] hoare_inv_liftM)+

lemma hoare_untouched:
  assumes "\<And>st. kinfit_untouched st (snd (A st))"
  shows "hoare (kinfit_untouched st0) A (\<lambda>_. kinfit_untouched st0) (\<lambda>_. kinfit_untouched st0)"
proof (rule hoareI)
  fix st r st' assume "kinfit_untouched st0 st" "A st = (r, st')"
  then have "kinfit_untouched st0 st'" using assms[of st] kinfit_untouched_trans by fastforce
  then show "case r of Inl e \<Rightarrow> kinfit_untouched st0 st' | Inr x \<Rightarrow> kinfit_untouched st0 st'"
    by (simp split: sum.splits)
qed

lemma hoare_state:
  assumes "hoare P m (\<lambda>_. Q) (\<lambda>_. Q)" "P st"
  shows "Q (snd (m st))"
proof -
  obtain r st' where e: "m st = (r, st')" by (cases "m st")
  from hoareD[OF assms e] show ?thesis by (simp add: e split: sum.splits)
qed

lemma store_higgs_evolves:
  "hoare (evolves st0)
     (\<lambda>(this', h'). (Inr v, this'\<lparr>higgs_bb := Some (length (higgs_cells h'))\<rparr>,
                        h'\<lparr>higgs_cells := higgs_cells h' @ [v]\<rparr>))
     (\<lambda>_. evolves st0) (\<lambda>_. evolves st0)"
  by (rule hoare_evolves)
     (auto simp: evolves_def same_identity_def heap_extends_def)

lemma store_higgs_untouched:
  "hoare (kinfit_untouched st0)
     (\<lambda>(this', h'). (Inr v, this'\<lparr>higgs_bb := Some (length (higgs_cells h'))\<rparr>,
                        h'\<lparr>higgs_cells := higgs_cells h' @ [v]\<rparr>))
     (\<lambda>_. kinfit_untouched st0) (\<lambda>_. kinfit_untouched st0)"
  by (rule hoare_untouched) (auto simp: kinfit_untouched_def)

lemma GetHiggsBB_effect:
  "evolves st (snd (GetHiggsBB st)) \<and> kinfit_untouched st (snd (GetHiggsBB st))"
proof (cases st)
  case (Pair this h)
  show ?thesis
  proof (cases "\<not> EventInfoBase_HasBjetPair this \<or> higgs_bb this \<noteq> None")
    case True
    then show ?thesis
      by (auto simp: Pair GetHiggsBB_def evolves_refl kinfit_untouched_refl)
  next
    case False
    let ?chain = "bindM GetJets (\<lambda>js.
               bindM (liftM (at_index js (fst (selectedBjetPair (selected_signal_jets this)))))
                 (\<lambda>j1.
               bindM (liftM (at_index js (snd (selectedBjetPair (selected_signal_jets this)))))
                 (\<lambda>j2. (\<lambda>(this', h').
                   (Inr \<lparr>first_daughter = j1, second_daughter = j2\<rparr>,
                    this'\<lparr>higgs_bb := Some (length (higgs_cells h'))\<rparr>,
                    h'\<lparr>higgs_cells := higgs_cells h'
                         @ [\<lparr>first_daughter = j1, second_daughter = j2\<rparr>]\<rparr>)))))"
    have g: "GetHiggsBB st = ?chain st" using False by (simp add: Pair GetHiggsBB_def)
    have 1: "hoare (evolves st) ?chain (\<lambda>_. evolves st) (\<lambda>_. evolves st)"
      by (rule hoare_bindM store_higgs_evolves hoare_inv_liftM hoare_evolves
          effects[THEN conjunct1])+
    have 2: "hoare (kinfit_untouched st) ?chain (\<lambda>_. kinfit_untouched st) (\<lambda>_. kinfit_untouched st)"
      by (rule hoare_bindM store_higgs_untouched hoare_inv_liftM hoare_untouched
          effects[THEN conjunct2])+
    show ?thesis
      using hoare_state[OF 1 evolves_refl] hoare_state[OF 2 kinfit_untouched_refl]
      by (simp add: g)
  qed
qed


lemma pure_read_evolves:
  "hoare (evolves st0) (\<lambda>(this, h). (Inr (f this), this, h)) (\<lambda>_. evolves st0) (\<lambda>_. evolves st0)"
  by (rule hoare_evolves) (auto simp: evolves_refl)



lemma GetKinFitResults_effect: "evolves st (snd (GetKinFitResults K X st))"
proof (cases st)
  case (Pair this h)
  let ?a = "length (kinfit_cells h)"
  let ?st1 = "(this\<lparr>kinfit_results := Some ?a\<rparr>,
               h\<lparr>kinfit_cells := kinfit_cells h @ [FitResults_init X]\<rparr>)"
  have a: "length (kinfit_cells (snd st)) \<le> ?a" by (simp add: Pair)
  have e1: "evolves st ?st1"
    by (simp add: Pair evolves_def same_identity_def heap_extends_def)
  note s = hoare_state[OF kinfit_from_solver_evolves[OF a] e1]
  note t = hoare_state[OF kinfit_from_table_evolves[OF a] e1]
  show ?thesis
    using s t
    by (simp add: Pair GetKinFitResults_def Let_def evolves_refl
        split: option.split sum.split)
qed



subsection \<open>Idempotence\<close>

lemma GetJets_idem: "GetJets st = (Inr v, st') \<Longrightarrow> GetJets st' = (Inr v, st')"
  by (cases st) (auto simp: GetJets_def Let_def split: option.splits)

lemma GetFatJets_idem: "GetFatJets st = (Inr v, st') \<Longrightarrow> GetFatJets st' = (Inr v, st')"
  by (cases st) (auto simp: GetFatJets_def Let_def split: option.splits)

lemma GetMET_idem: "GetMET st = (Inr v, st') \<Longrightarrow> GetMET st' = (Inr v, st')"
  by (cases st) (auto simp: GetMET_def Let_def split: option.splits)

lemma GetFirstLeg_idem: "GetFirstLeg st = (Inr v, st') \<Longrightarrow> GetFirstLeg st' = (Inr v, st')"
  by (cases st) (auto simp: GetFirstLeg_def split: option.splits sum.splits)

lemma GetSecondLeg_idem: "GetSecondLeg st = (Inr v, st') \<Longrightarrow> GetSecondLeg st' = (Inr v, st')"
  by (cases st) (auto simp: GetSecondLeg_def split: option.splits sum.splits)

lemma HasBjetPair_same_identity:
  "same_identity this this' \<Longrightarrow> EventInfoBase_HasBjetPair this' = EventInfoBase_HasBjetPair this"
  by (simp add: same_identity_def EventInfoBase_HasBjetPair_def GetNJets_def)

lemma store_higgs_result:
  "hoare (\<lambda>_. True)
     (\<lambda>(this', h'). (Inr v, this'\<lparr>higgs_bb := Some (length (higgs_cells h'))\<rparr>,
                        h'\<lparr>higgs_cells := higgs_cells h' @ [v]\<rparr>))
     (\<lambda>x st. \<exists>a. higgs_bb (fst st) = Some a \<and> higgs_cells (snd st) ! a = x)
     (\<lambda>_ _. True)"
  by (rule hoareI) auto

lemma hoare_any: "hoare P m (\<lambda>_ _. True) (\<lambda>_ _. True)"
  by (rule hoareI) (simp split: sum.splits)

lemma GetHiggsBB_result:
  assumes "GetHiggsBB st = (Inr v, st')"
  shows "EventInfoBase_HasBjetPair (fst st')
       \<and> (\<exists>a. higgs_bb (fst st') = Some a \<and> higgs_cells (snd st') ! a = v)"
proof -
  obtain this h where st: "st = (this, h)" by (cases st)
  have hb: "EventInfoBase_HasBjetPair this" using assms by (auto simp: st GetHiggsBB_def split: if_splits)
  have "evolves st st'" using GetHiggsBB_effect[of st] assms by simp
  then have 1: "EventInfoBase_HasBjetPair (fst st')"
    using hb HasBjetPair_same_identity by (auto simp: evolves_def st)
  have 2: "\<exists>a. higgs_bb (fst st') = Some a \<and> higgs_cells (snd st') ! a = v"
  proof (cases "higgs_bb this")
    case (Some a)
    then show ?thesis using assms hb by (auto simp: st GetHiggsBB_def)
  next
    case None
    let ?chain = "bindM GetJets (\<lambda>js.
               bindM (liftM (at_index js (fst (selectedBjetPair (selected_signal_jets this)))))
                 (\<lambda>j1.
               bindM (liftM (at_index js (snd (selectedBjetPair (selected_signal_jets this)))))
                 (\<lambda>j2. (\<lambda>(this', h').
                   (Inr \<lparr>first_daughter = j1, second_daughter = j2\<rparr>,
                    this'\<lparr>higgs_bb := Some (length (higgs_cells h'))\<rparr>,
                    h'\<lparr>higgs_cells := higgs_cells h'
                         @ [\<lparr>first_daughter = j1, second_daughter = j2\<rparr>]\<rparr>)))))"
    have g: "?chain st = (Inr v, st')" using assms None hb by (simp add: st GetHiggsBB_def)
    have "hoare (\<lambda>_. True) ?chain
            (\<lambda>x st. \<exists>a. higgs_bb (fst st) = Some a \<and> higgs_cells (snd st) ! a = x) (\<lambda>_ _. True)"
      by (rule hoare_bindM store_higgs_result hoare_any)+
    from hoareD[OF this _ g] show ?thesis by simp
  qed
  from 1 2 show ?thesis by blast
qed

lemma GetHiggsBB_idem:
  assumes "GetHiggsBB st = (Inr v, st')"
  shows "GetHiggsBB st' = (Inr v, st')"
  using GetHiggsBB_result[OF assms]
  by (cases st') (auto simp: GetHiggsBB_def)

lemma GetMT2_result:
  assumes "GetMT2 X st = (Inr v, st')"
  shows "mt2 (fst st') = Some v"
proof -
  obtain this h where st: "st = (this, h)" by (cases st)
  show ?thesis
  proof (cases "mt2 this")
    case (Some w)
    then show ?thesis using assms by (auto simp: st GetMT2_def)
  next
    case None
    let ?chain = "bindM (eval_args (eval_order (MT2_rank X) 5) MT2_argument (\<lambda>i. None))
           (\<lambda>vals. (\<lambda>(this', h').
              (Inr (Calculate_MT2 X (the (vals 0)) (the (vals 1)) (the (vals 2))
                        (the (vals 3)) (the (vals 4))),
               this'\<lparr>mt2 := Some (Calculate_MT2 X (the (vals 0)) (the (vals 1)) (the (vals 2))
                        (the (vals 3)) (the (vals 4)))\<rparr>, h')))"
    have g: "?chain st = (Inr v, st')" using assms None by (simp add: st GetMT2_def Let_def)
    have "hoare (\<lambda>_. True) ?chain (\<lambda>x st. mt2 (fst st) = Some x) (\<lambda>_ _. True)"
      apply (rule hoare_bindM)
       apply (rule hoareI, force)
      apply (rule hoare_any)
      done
    from hoareD[OF this _ g] show ?thesis by simp
  qed
qed

lemma GetMT2_idem:
  assumes "GetMT2 X st = (Inr v, st')"
  shows "GetMT2 X st' = (Inr v, st')"
  using GetMT2_result[OF assms] by (cases st') (auto simp: GetMT2_def)

lemma Fit_argument_slot:
  "hoare (\<lambda>st. kinfit_results (fst st) = Some a) (Fit_argument i)
     (\<lambda>_ st. kinfit_results (fst st) = Some a) (\<lambda>_ st. kinfit_results (fst st) = Some a)"
  by (rule hoare_kinfit_slot) (simp add: Fit_argument_def bind_returnM_state effects)

lemma kinfit_from_solver_result:
  "hoare (\<lambda>st. kinfit_results (fst st) = Some a) (kinfit_from_solver K X ev a)
     (\<lambda>v st. kinfit_results (fst st) = Some a \<and> v = kinfit_cells (snd st) ! a)
     (\<lambda>_ st. kinfit_results (fst st) = Some a)"
  unfolding kinfit_from_solver_def Let_def
  by (rule hoare_bindM read_kinfit_result write_kinfit_slot hoare_inv_liftM
      hoare_eval_args Fit_argument_slot hoare_kinfit_slot effects[THEN conjunct2])+

lemma kinfit_from_table_result:
  "hoare (\<lambda>st. kinfit_results (fst st) = Some a) (kinfit_from_table X ev a idx)
     (\<lambda>v st. kinfit_results (fst st) = Some a \<and> v = kinfit_cells (snd st) ! a)
     (\<lambda>_ st. kinfit_results (fst st) = Some a)"
  unfolding kinfit_from_table_def
  by (rule hoare_bindM read_kinfit_result write_kinfit_slot hoare_inv_liftM)+

lemma GetKinFitResults_result:
  assumes "GetKinFitResults K X st = (Inr v, st')"
  shows "EventInfoBase_HasBjetPair (fst st')
       \<and> (\<exists>a. kinfit_results (fst st') = Some a \<and> kinfit_cells (snd st') ! a = v)"
proof -
  obtain this h where st: "st = (this, h)" by (cases st)
  have hb: "EventInfoBase_HasBjetPair this"
    using assms by (auto simp: st GetKinFitResults_def split: if_splits)
  have "evolves st st'" using GetKinFitResults_effect[of st K X] assms by simp
  then have 1: "EventInfoBase_HasBjetPair (fst st')"
    using hb HasBjetPair_same_identity by (auto simp: evolves_def st)
  have 2: "\<exists>a. kinfit_results (fst st') = Some a \<and> kinfit_cells (snd st') ! a = v"
  proof (cases "kinfit_results this")
    case (Some a)
    then show ?thesis using assms hb by (auto simp: st GetKinFitResults_def)
  next
    case None
    let ?a = "length (kinfit_cells h)"
    let ?st1 = "(this\<lparr>kinfit_results := Some ?a\<rparr>,
               h\<lparr>kinfit_cells := kinfit_cells h @ [FitResults_init X]\<rparr>)"
    have p: "kinfit_results (fst ?st1) = Some ?a" by simp
    from assms None hb obtain pairId where
      c: "CombinationPairToIndex X (selectedBjetPair (selected_signal_jets this)) (GetNJets this)
            = Inr pairId"
      by (auto simp: st GetKinFitResults_def split: sum.splits)
    show ?thesis
    proof (cases "find_pos pairId (kinFit_jetPairId (event this))")
      case None
      have "kinfit_from_solver K X (event this) ?a ?st1 = (Inr v, st')"
        using assms \<open>kinfit_results this = None\<close> hb c None
        by (simp add: st GetKinFitResults_def Let_def)
      from hoareD[OF kinfit_from_solver_result p this] show ?thesis by simp
    next
      case (Some idx)
      have "kinfit_from_table X (event this) ?a idx ?st1 = (Inr v, st')"
        using assms \<open>kinfit_results this = None\<close> hb c Some
        by (simp add: st GetKinFitResults_def Let_def)
      from hoareD[OF kinfit_from_table_result p this] show ?thesis by simp
    qed
  qed
  from 1 2 show ?thesis by blast
qed

lemma GetKinFitResults_idem:
  assumes "GetKinFitResults K X st = (Inr v, st')"
  shows "GetKinFitResults K X st' = (Inr v, st')"
  using GetKinFitResults_result[OF assms]
  by (cases st') (auto simp: GetKinFitResults_def)

lemmas cached_defs = cached_leg1_def cached_leg2_def cached_jets_def cached_fatJets_def
  cached_met_def cached_higgs_bb_def cached_kinfit_def cached_mt2_def

subsection \<open>A slot, once set, stays set\<close>

























subsection \<open>A call that returns leaves its value in the slot\<close>


lemma prefix_length: "prefix xs ys \<Longrightarrow> a < length xs \<Longrightarrow> a < length ys"
  by (auto simp: prefix_def)















subsection \<open>Later calls read the slot\<close>










subsection \<open>ApplyShift\<close>

lemma ApplyShift_this: "fst (snd (ApplyShift src scale (this, h))) = this"
  by (simp add: ApplyShift_def Let_def split: sum.splits prod.splits)

lemma apply_corrections_effect:
  "evolves st (snd (apply_corrections jec src scale other st))"
proof -
  have "hoare (evolves st) (apply_corrections jec src scale other)
          (\<lambda>_. evolves st) (\<lambda>_. evolves st)"
    unfolding apply_corrections_def
    by (rule hoare_bindM hoare_evolves effects[THEN conjunct1])+
  from hoare_state[OF this evolves_refl] show ?thesis .
qed

lemma ApplyShift_heap: "heap_extends h (snd (snd (ApplyShift src scale (this, h))))"
proof -
  have r: "heap_extends h h" by (simp add: heap_extends_def)
  have e: "heap_extends h (snd (snd (apply_corrections jec src scale other
                                      (EventInfoBase_copy this, h))))" for jec other
    using apply_corrections_effect[of "(EventInfoBase_copy this, h)" jec src scale other]
    by (simp add: evolves_def)
  show ?thesis
  proof (cases "GetSummaryInfo (EventInfoBase_copy this)")
    case (Inl e1)
    then show ?thesis using r by (simp add: ApplyShift_def Let_def)
  next
    case (Inr s)
    show ?thesis
    proof (cases "GetJecUncertainties s")
      case (Inl e2)
      then show ?thesis using r Inr by (simp add: ApplyShift_def Let_def)
    next
      case (Inr jec)
      show ?thesis
        using e[of jec "other_jets_p4 (event this)"] \<open>GetSummaryInfo (EventInfoBase_copy this) = Inr s\<close> Inr
        by (auto simp: ApplyShift_def Let_def split: prod.splits sum.splits)
    qed
  qed
qed

section \<open>Evaluation on concrete inputs\<close>

lemma Undefined_neq_small: "n < 2 ^ 64 - 1 \<Longrightarrow> UndefinedJetIndex \<noteq> n"
  by (simp add: UndefinedJetIndex_def)

lemma Undefined_not_less: "n \<le> 2 ^ 64 - 1 \<Longrightarrow> \<not> UndefinedJetIndex < n"
  by (simp add: UndefinedJetIndex_def)

lemma small_le_Undefined: "n \<le> 2 ^ 64 - 1 \<Longrightarrow> n \<le> UndefinedJetIndex"
  by (simp add: UndefinedJetIndex_def)

lemmas eval_defs =
  select_bjets_def select_vbf_def vbf_loop_def vbf_step_def mjj_def
  HasBjetPair_def HasVBFPair_def
  unselected_def isSelectedBjet_def isSelectedVBFjet_def
  SelectedSignalJets_init_def UndefinedJetPair_def Undefined_neq_small Undefined_not_less
  small_le_Undefined
  candidate_def mk_JetInfo_def OrderJets_def PassHardCut_def
  ex_K_def ex_BTagger_def ex_scores_def ex_event_def upt_rec Let_def

lemmas eval_stages =
  SelectSignalJets_def bjets_ordered_def vbf_jets_ordered_def new_bjets_ordered_def
  CreateJetInfo_def CreateJetInfo_loop_eq

lemma ev_bb_vbf_selection:
  "SelectSignalJets ex_K ev_bb_vbf 0 0 =
     Inr \<lparr>selectedBjetPair = (0, 1), selectedVBFjetPair = (2, 3), n_bjets = 2\<rparr>"
  unfolding eval_stages by (simp add: eval_defs ev_bb_vbf_def)

lemma ev_one_jet_selection:
  "SelectSignalJets ex_K ev_one_jet 0 0 =
     Inr \<lparr>selectedBjetPair = (0, UndefinedJetIndex), selectedVBFjetPair = UndefinedJetPair,
          n_bjets = 1\<rparr>"
  unfolding eval_stages by (simp add: eval_defs ev_one_jet_def)

lemma ev_second_fails_selection:
  "SelectSignalJets ex_K ev_second_fails 0 0 = Inr sel_second_fails"
  unfolding eval_stages by (simp add: eval_defs ev_second_fails_def sel_second_fails_def)

lemma ev_second_fails_bjets:
  "bjets_ordered ex_K ev_second_fails 0 0 = Inr bjets_second_fails"
  unfolding eval_stages by (simp add: eval_defs ev_second_fails_def bjets_second_fails_def)

lemma ev_one_jet_passing:
  "length (filter (passes_all_cuts ex_K ev_one_jet 0 (make_BTagger ex_K 0 0))
             [0 ..< length (jets_p4 ev_one_jet)]) = 1"
  by (simp add: passes_all_cuts_def eval_defs ev_one_jet_def)

text \<open>The record with a not-a-number jet energy, stage by stage.\<close>

lemmas eval_defs_fp =
  select_bjets_def select_vbf_def vbf_loop_def vbf_step_def mjj_def
  HasBjetPair_def HasVBFPair_def
  unselected_def isSelectedBjet_def isSelectedVBFjet_def
  SelectedSignalJets_init_def UndefinedJetPair_def Undefined_neq_small Undefined_not_less
  small_le_Undefined
  candidate_def mk_JetInfo_def OrderJets_def PassHardCut_def
  ex_K_fp_def ex_BTagger_fp_def ex_scores_fp_def upt_rec Let_def

lemma ev_vbf_nan_bjets:
  "bjets_ordered ex_K_fp ev_vbf_nan 0 0 =
     Inr [\<lparr>p4 = (80, 1/2, 0, Finite 100), index = 0, tag = 9/10\<rparr>,
         \<lparr>p4 = (60, -1, 1, Finite 90), index = 1, tag = 8/10\<rparr>]"
  unfolding eval_stages by (simp add: eval_defs_fp ev_vbf_nan_def)

lemma ev_vbf_nan_s2:
  "select_bjets (make_BTagger ex_K_fp 0 0) ev_vbf_nan
        [\<lparr>p4 = (80, 1/2, 0, Finite 100), index = 0, tag = 9/10\<rparr>,
         \<lparr>p4 = (60, -1, 1, Finite 90), index = 1, tag = 8/10\<rparr>]
   = \<lparr>selectedBjetPair = (0, 1), selectedVBFjetPair = UndefinedJetPair, n_bjets = 2\<rparr>"
  by (simp add: select_bjets_def SelectedSignalJets_init_def Let_def ex_K_fp_def
      ex_BTagger_fp_def ex_scores_fp_def)

lemma ev_vbf_nan_ranking:
  "vbf_jets_ordered ex_K_fp ev_vbf_nan 0 0
     \<lparr>selectedBjetPair = (0, 1), selectedVBFjetPair = UndefinedJetPair, n_bjets = 2\<rparr>
   = Inr vbf_nan"
  unfolding eval_stages by (simp add: eval_defs_fp ev_vbf_nan_def vbf_nan_def)

lemma vbf_nan_masses:
  "mjj ex_K_fp vbf_nan 0 1 = NaN" "mjj ex_K_fp vbf_nan 0 2 = NaN" "mjj ex_K_fp vbf_nan 0 3 = NaN"
  "mjj ex_K_fp vbf_nan 1 2 = Finite 900" "mjj ex_K_fp vbf_nan 1 3 = Finite 915"
  "mjj ex_K_fp vbf_nan 2 3 = Finite 915"
  by (simp_all add: mjj_def vbf_nan_def ex_K_fp_def)

lemma vbf_nan_loop:
  "select_vbf ex_K_fp vbf_nan
     \<lparr>selectedBjetPair = (0, 1), selectedVBFjetPair = UndefinedJetPair, n_bjets = 2\<rparr>
   = sel_vbf_nan"
proof -
  have l: "length vbf_nan = 4" by (simp add: vbf_nan_def)
  have m: "mjj ex_K_fp vbf_nan 0 (Suc 0) = NaN" "mjj ex_K_fp vbf_nan 0 (Suc (Suc 0)) = NaN"
    "mjj ex_K_fp vbf_nan 0 (Suc (Suc (Suc 0))) = NaN"
    "mjj ex_K_fp vbf_nan (Suc 0) (Suc (Suc 0)) = Finite 900"
    "mjj ex_K_fp vbf_nan (Suc 0) (Suc (Suc (Suc 0))) = Finite 915"
    "mjj ex_K_fp vbf_nan (Suc (Suc 0)) (Suc (Suc (Suc 0))) = Finite 915"
    by (simp_all add: mjj_def vbf_nan_def ex_K_fp_def)
  have i: "index (vbf_nan ! Suc 0) = 3" "index (vbf_nan ! Suc (Suc (Suc 0))) = 5"
    by (simp_all add: vbf_nan_def)
  show ?thesis
    by (simp add: select_vbf_def vbf_loop_def l upt_rec vbf_step_def m i sel_vbf_nan_def)
qed

lemma ev_vbf_nan_selection:
  "SelectSignalJets ex_K_fp ev_vbf_nan 0 0 = Inr sel_vbf_nan"
  unfolding SelectSignalJets_def ev_vbf_nan_bjets sum.case Let_def ev_vbf_nan_s2
    ev_vbf_nan_ranking vbf_nan_loop
  by (simp add: sel_vbf_nan_def HasBjetPair_def ev_vbf_nan_def)

section \<open>Evaluation of the accessors on concrete instances\<close>







section \<open>Shape of the two selected pairs\<close>

text \<open>
  Claim C3, as stated (no pair with exactly one valid index), fails for the b-jet pair:
  with a single jet passing the cuts the first slot is filled and the second stays
  undefined.
\<close>

theorem SelectSignalJets_partial_pair_counterexample:
  "SelectSignalJets ex_K ev_one_jet 0 0 =
     Inr \<lparr>selectedBjetPair = (0, UndefinedJetIndex), selectedVBFjetPair = UndefinedJetPair,
          n_bjets = 1\<rparr>
   \<and> (0 :: nat) < length (jets_p4 ev_one_jet)
   \<and> \<not> UndefinedJetIndex < length (jets_p4 ev_one_jet)"
proof -
  have "(0 :: nat) < length (jets_p4 ev_one_jet)"
    "\<not> UndefinedJetIndex < length (jets_p4 ev_one_jet)"
    by (simp_all add: ev_one_jet_def ex_event_def UndefinedJetIndex_def)
  with ev_one_jet_selection show ?thesis by blast
qed

text \<open>
  Claim C3, amended. For every selection returned by \<open>SelectSignalJets\<close> on a jet array of
  at most \<open>SIZE_MAX\<close> entries: the VBF pair is either fully defined (two distinct valid
  positions) or the undefined pair; the b-jet pair is fully defined (two distinct valid
  positions), or holds a valid first index with an undefined second index, or is the
  undefined pair. A valid second index never comes with an invalid first index.
\<close>

theorem SelectSignalJets_pair_shapes:
  assumes sel: "SelectSignalJets K ev per jo = Inr sel"
    and bound: "length (jets_p4 ev) \<le> UndefinedJetIndex"
  shows "((fst (selectedVBFjetPair sel) < length (jets_p4 ev)
           \<and> snd (selectedVBFjetPair sel) < length (jets_p4 ev)
           \<and> fst (selectedVBFjetPair sel) \<noteq> snd (selectedVBFjetPair sel))
          \<or> selectedVBFjetPair sel = UndefinedJetPair)
       \<and> ((fst (selectedBjetPair sel) < length (jets_p4 ev)
           \<and> snd (selectedBjetPair sel) < length (jets_p4 ev)
           \<and> fst (selectedBjetPair sel) \<noteq> snd (selectedBjetPair sel))
          \<or> (fst (selectedBjetPair sel) < length (jets_p4 ev)
              \<and> snd (selectedBjetPair sel) = UndefinedJetIndex)
          \<or> selectedBjetPair sel = UndefinedJetPair)"
proof -
  let ?bt = "make_BTagger K per jo"
  let ?N = "length (jets_p4 ev)"
  have nv: "\<not> UndefinedJetIndex < ?N" using bound by simp
  from sel show ?thesis
  proof (cases rule: SelectSignalJets_cases)
    case (1 bjets vbf)
    let ?s2 = "select_bjets ?bt ev bjets"
    have V: "(fst (selectedVBFjetPair sel) < ?N \<and> snd (selectedVBFjetPair sel) < ?N
           \<and> fst (selectedVBFjetPair sel) \<noteq> snd (selectedVBFjetPair sel))
          \<or> selectedVBFjetPair sel = UndefinedJetPair"
      using s3_vbf_facts[OF 1(2) select_bjets_simps(1)] unfolding 1(4) by blast
    have "fst (selectedBjetPair ?s2) < ?N" "snd (selectedBjetPair ?s2) < ?N"
      using 1(3) by (simp_all add: HasBjetPair_def select_vbf_simps)
    then have "2 \<le> length bjets" "selectedBjetPair ?s2 = (index (bjets ! 0), index (bjets ! 1))"
      using nv by (auto simp: select_bjets_simps prod_eq_iff split: if_splits)
    then have "fst (selectedBjetPair sel) < ?N \<and> snd (selectedBjetPair sel) < ?N
           \<and> fst (selectedBjetPair sel) \<noteq> snd (selectedBjetPair sel)"
      using bjets_index0[OF 1(1)] bjets_index1[OF 1(1)] bjets_index_distinct[OF 1(1)] \<open>2 \<le> length bjets\<close> unfolding 1(4)
      by (simp add: select_vbf_simps)
    with V show ?thesis by blast
  next
    case (2 bjets vbf new_bjets)
    let ?s2 = "select_bjets ?bt ev bjets"
    let ?s3 = "select_vbf K vbf ?s2"
    have V: "(fst (selectedVBFjetPair sel) < ?N \<and> snd (selectedVBFjetPair sel) < ?N
           \<and> fst (selectedVBFjetPair sel) \<noteq> snd (selectedVBFjetPair sel))
          \<or> selectedVBFjetPair sel = UndefinedJetPair"
      using s3_vbf_facts[OF 2(2) select_bjets_simps(1)] unfolding 2(6) by simp blast
    have mem: "new_bjets ! 0 \<in> set new_bjets" using 2(5) by (cases new_bjets) auto
    from new_bjets_ordered_props(2)[OF 2(4) mem]
    have n0: "index (new_bjets ! 0) < ?N" "unselected ?s3 (index (new_bjets ! 0))" by simp_all
    have "new_bjets ! 0 \<in> set bjets" using new_bjets_subset[OF 2(1) 2(4) bound] mem by blast
    then have "1 \<le> length bjets" by (cases bjets) auto
    then have f: "fst (selectedBjetPair ?s2) = index (bjets ! 0)" "index (bjets ! 0) < ?N"
      using bjets_index0[OF 2(1)] by (simp_all add: select_bjets_simps)
    have "fst (selectedBjetPair ?s3) \<noteq> index (new_bjets ! 0)" using unselectedD[OF n0(2)] by blast
    then have "fst (selectedBjetPair ?s2) \<noteq> index (new_bjets ! 0)" by (simp add: select_vbf_simps)
    then have "fst (selectedBjetPair sel) < ?N \<and> snd (selectedBjetPair sel) < ?N
           \<and> fst (selectedBjetPair sel) \<noteq> snd (selectedBjetPair sel)"
      using f n0(1) unfolding 2(6) by simp
    with V show ?thesis by blast
  next
    case (3 bjets vbf)
    have "fst (selectedBjetPair sel) < ?N \<and> snd (selectedBjetPair sel) < ?N
           \<and> fst (selectedBjetPair sel) \<noteq> snd (selectedBjetPair sel)"
      using bjets_index0[OF 3(1)] bjets_index1[OF 3(1) 3(5)] bjets_index_distinct[OF 3(1) 3(5)] 3(5) unfolding 3(6)
      by (simp add: select_bjets_simps)
    then show ?thesis unfolding 3(6) by simp
  next
    case (4 bjets vbf)
    have "snd (selectedBjetPair sel) = UndefinedJetIndex" using 4(5) unfolding 4(6)
      by (simp add: select_vbf_simps select_bjets_simps)
    moreover have "fst (selectedBjetPair sel) < ?N \<or> fst (selectedBjetPair sel) = UndefinedJetIndex"
      using bjets_index0[OF 4(1)] unfolding 4(6)
      by (simp add: select_vbf_simps select_bjets_simps)
    ultimately have "(fst (selectedBjetPair sel) < ?N \<and> snd (selectedBjetPair sel) = UndefinedJetIndex)
          \<or> selectedBjetPair sel = UndefinedJetPair"
      by (auto simp: UndefinedJetPair_def prod_eq_iff)
    then show ?thesis unfolding 4(6) by simp
  qed
qed

theorem SelectSignalJets_pair_shapes_witness:
  "SelectSignalJets ex_K ev_one_jet 0 0 =
     Inr \<lparr>selectedBjetPair = (0, UndefinedJetIndex), selectedVBFjetPair = UndefinedJetPair,
          n_bjets = 1\<rparr>
   \<and> length (jets_p4 ev_one_jet) \<le> UndefinedJetIndex
   \<and> fst (selectedBjetPair \<lparr>selectedBjetPair = (0, UndefinedJetIndex),
          selectedVBFjetPair = UndefinedJetPair, n_bjets = 1\<rparr>) < length (jets_p4 ev_one_jet)
   \<and> snd (selectedBjetPair \<lparr>selectedBjetPair = (0, UndefinedJetIndex),
          selectedVBFjetPair = UndefinedJetPair, n_bjets = 1\<rparr>) = UndefinedJetIndex
   \<and> selectedVBFjetPair \<lparr>selectedBjetPair = (0, UndefinedJetIndex),
          selectedVBFjetPair = UndefinedJetPair, n_bjets = 1\<rparr> = UndefinedJetPair"
proof -
  let ?sel = "\<lparr>selectedBjetPair = (0, UndefinedJetIndex), selectedVBFjetPair = UndefinedJetPair,
          n_bjets = 1\<rparr>"
  have s: "SelectSignalJets ex_K ev_one_jet 0 0 = Inr ?sel" by (rule ev_one_jet_selection)
  have b: "length (jets_p4 ev_one_jet) \<le> UndefinedJetIndex"
    by (simp add: ev_one_jet_def ex_event_def small_le_Undefined)
  have p: "fst (selectedBjetPair ?sel) < length (jets_p4 ev_one_jet)"
    "snd (selectedBjetPair ?sel) = UndefinedJetIndex"
    "selectedVBFjetPair ?sel = UndefinedJetPair"
    by (simp_all add: ev_one_jet_def ex_event_def)
  from SelectSignalJets_pair_shapes[OF s b] show ?thesis
    using s b p by blast
qed

section \<open>Fallback coverage\<close>

text \<open>
  Claim C5. Let \<open>SelectSignalJets\<close> return a selection on a jet array of at most
  \<open>SIZE_MAX\<close> entries. If exactly one jet passes all cuts of the b-tag ranking, the second
  b-jet slot and the VBF pair are both undefined. If the b-tag ranked list has at least two
  entries and its second entry fails the working point, the returned selection has a
  defined second b-jet, hence a defined b-jet pair.
\<close>

theorem SelectSignalJets_fallback_coverage:
  assumes sel: "SelectSignalJets K ev per jo = Inr sel"
    and bound: "length (jets_p4 ev) \<le> UndefinedJetIndex"
  shows "(length (filter (passes_all_cuts K ev per (make_BTagger K per jo))
                    [0 ..< length (jets_p4 ev)]) = 1
            \<longrightarrow> snd (selectedBjetPair sel) = UndefinedJetIndex
              \<and> selectedVBFjetPair sel = UndefinedJetPair
              \<and> \<not> HasBjetPair sel (length (jets_p4 ev))
              \<and> \<not> HasVBFPair sel (length (jets_p4 ev)))
       \<and> (\<forall>bjets. bjets_ordered K ev per jo = Inr bjets \<and> 2 \<le> length bjets
                 \<and> \<not> Pass (make_BTagger K per jo) ev (index (bjets ! 1))
            \<longrightarrow> snd (selectedBjetPair sel) < length (jets_p4 ev)
              \<and> HasBjetPair sel (length (jets_p4 ev)))"
proof (intro conjI impI allI)
  let ?bt = "make_BTagger K per jo"
  let ?N = "length (jets_p4 ev)"
  have nv: "\<not> UndefinedJetIndex < ?N" using bound by simp
  {
    assume one: "length (filter (passes_all_cuts K ev per ?bt) [0 ..< ?N]) = 1"
    have R: "snd (selectedBjetPair sel) = UndefinedJetIndex \<and> selectedVBFjetPair sel = UndefinedJetPair"
      using sel
    proof (cases rule: SelectSignalJets_cases)
      case (1 bjets vbf)
      have "length bjets = 1" using bjets_ordered_length[OF 1(1) bound] one by simp
      then have "snd (selectedBjetPair (select_bjets ?bt ev bjets)) = UndefinedJetIndex"
        by (simp add: select_bjets_simps)
      then show ?thesis using 1(3) nv by (simp add: HasBjetPair_def select_vbf_simps)
    next
      case (2 bjets vbf new_bjets)
      let ?s3 = "select_vbf K vbf (select_bjets ?bt ev bjets)"
      have l: "length bjets = 1" using bjets_ordered_length[OF 2(1) bound] one by simp
      then obtain b where bb: "bjets = [b]" by (cases bjets) auto
      have "fst (selectedBjetPair ?s3) = index b"
        by (simp add: select_vbf_simps select_bjets_simps bb)
      then have "\<not> unselected ?s3 (index b)" by (simp add: unselected_def isSelectedBjet_def)
      then have "set new_bjets = {}" using new_bjets_subset[OF 2(1) 2(4) bound] bb by auto
      then show ?thesis using 2(5) by simp
    next
      case (3 bjets vbf)
      have "length bjets = 1" using bjets_ordered_length[OF 3(1) bound] one by simp
      then show ?thesis using 3(5) by simp
    next
      case (4 bjets vbf)
      have "length bjets = 1" using bjets_ordered_length[OF 4(1) bound] one by simp
      then show ?thesis unfolding 4(6) by (simp add: select_vbf_simps select_bjets_simps)
    qed
    from R show "snd (selectedBjetPair sel) = UndefinedJetIndex" by simp
    from R show "selectedVBFjetPair sel = UndefinedJetPair" by simp
    from R nv show "\<not> HasBjetPair sel ?N" by (simp add: HasBjetPair_def)
    from R nv show "\<not> HasVBFPair sel ?N" by (simp add: HasVBFPair_def UndefinedJetPair_def)
  }
  fix bjets0
  assume h: "bjets_ordered K ev per jo = Inr bjets0 \<and> 2 \<le> length bjets0
                 \<and> \<not> Pass ?bt ev (index (bjets0 ! 1))"
  have R2: "fst (selectedBjetPair sel) < ?N \<and> snd (selectedBjetPair sel) < ?N"
    using sel
  proof (cases rule: SelectSignalJets_cases)
    case (1 bjets vbf)
    have "bjets = bjets0" using 1(1) h by simp
    then have "snd (selectedBjetPair (select_bjets ?bt ev bjets)) = UndefinedJetIndex"
      using h by (simp add: select_bjets_simps)
    then show ?thesis using 1(3) nv by (simp add: HasBjetPair_def select_vbf_simps)
  next
    case (2 bjets vbf new_bjets)
    have e: "bjets = bjets0" using 2(1) h by simp
    have mem: "new_bjets ! 0 \<in> set new_bjets" using 2(5) by (cases new_bjets) auto
    from new_bjets_ordered_props(2)[OF 2(4) mem]
    have "index (new_bjets ! 0) < ?N" by simp
    moreover have "index (bjets ! 0) < ?N" using bjets_index0[OF 2(1)] h e by simp
    ultimately show ?thesis unfolding 2(6) using h e by (simp add: select_bjets_simps)
  next
    case (3 bjets vbf)
    show ?thesis using bjets_index0[OF 3(1)] bjets_index1[OF 3(1) 3(5)] 3(5) unfolding 3(6)
      by (simp add: select_bjets_simps)
  next
    case (4 bjets vbf)
    have "bjets = bjets0" using 4(1) h by simp
    then show ?thesis using 4(5) h by simp
  qed
  from R2 show "snd (selectedBjetPair sel) < ?N" by simp
  from R2 show "HasBjetPair sel ?N" by (simp add: HasBjetPair_def)
qed

theorem SelectSignalJets_fallback_coverage_witness:
  "SelectSignalJets ex_K ev_one_jet 0 0 = Inr sel_one_jet
   \<and> length (jets_p4 ev_one_jet) \<le> UndefinedJetIndex
   \<and> length (filter (passes_all_cuts ex_K ev_one_jet 0 (make_BTagger ex_K 0 0))
                [0 ..< length (jets_p4 ev_one_jet)]) = 1
   \<and> snd (selectedBjetPair sel_one_jet) = UndefinedJetIndex
   \<and> selectedVBFjetPair sel_one_jet = UndefinedJetPair
   \<and> SelectSignalJets ex_K ev_second_fails 0 0 = Inr sel_second_fails
   \<and> length (jets_p4 ev_second_fails) \<le> UndefinedJetIndex
   \<and> bjets_ordered ex_K ev_second_fails 0 0 = Inr bjets_second_fails
   \<and> 2 \<le> length bjets_second_fails
   \<and> \<not> Pass (make_BTagger ex_K 0 0) ev_second_fails (index (bjets_second_fails ! 1))
   \<and> snd (selectedBjetPair sel_second_fails) < length (jets_p4 ev_second_fails)
   \<and> HasBjetPair sel_second_fails (length (jets_p4 ev_second_fails))"
proof -
  have s1: "SelectSignalJets ex_K ev_one_jet 0 0 = Inr sel_one_jet"
    using ev_one_jet_selection by (simp add: sel_one_jet_def)
  have b1: "length (jets_p4 ev_one_jet) \<le> UndefinedJetIndex"
    by (simp add: ev_one_jet_def ex_event_def small_le_Undefined)
  note one = ev_one_jet_passing
  have s2: "SelectSignalJets ex_K ev_second_fails 0 0 = Inr sel_second_fails"
    by (rule ev_second_fails_selection)
  have b2: "length (jets_p4 ev_second_fails) \<le> UndefinedJetIndex"
    by (simp add: ev_second_fails_def ex_event_def small_le_Undefined)
  have h2: "bjets_ordered ex_K ev_second_fails 0 0 = Inr bjets_second_fails
              \<and> 2 \<le> length bjets_second_fails
              \<and> \<not> Pass (make_BTagger ex_K 0 0) ev_second_fails (index (bjets_second_fails ! 1))"
    using ev_second_fails_bjets
    by (simp add: bjets_second_fails_def ex_K_def ex_BTagger_def ex_scores_def)
  from SelectSignalJets_fallback_coverage[OF s1 b1] SelectSignalJets_fallback_coverage[OF s2 b2]
  show ?thesis using s1 b1 one s2 b2 h2 by blast
qed

section \<open>Maximality of the VBF pair\<close>

text \<open>
  On the record \<open>ev_vbf_nan\<close> the selection returns the defined VBF pair \<open>(3, 5)\<close>, the
  jets at positions 1 and 3 of the ranked candidate list, of mass 915; the combination of
  the positions 0 and 1 has a mass that is not a number, so the mass of the pair returned
  is not greater than or equal to the mass of every other combination.
\<close>

theorem SelectSignalJets_vbf_nan_counterexample:
  "SelectSignalJets ex_K_fp ev_vbf_nan 0 0 = Inr sel_vbf_nan
   \<and> HasVBFPair sel_vbf_nan (length (jets_p4 ev_vbf_nan))
   \<and> vbf_jets_ordered ex_K_fp ev_vbf_nan 0 0
         \<lparr>selectedBjetPair = (0, 1), selectedVBFjetPair = UndefinedJetPair, n_bjets = 2\<rparr>
       = Inr vbf_nan
   \<and> selectedVBFjetPair sel_vbf_nan = (index (vbf_nan ! 1), index (vbf_nan ! 3))
   \<and> mjj ex_K_fp vbf_nan 1 3 = Finite 915
   \<and> mjj ex_K_fp vbf_nan 0 1 = NaN
   \<and> \<not> double_ge (mjj ex_K_fp vbf_nan 1 3) (mjj ex_K_fp vbf_nan 0 1)"
proof -
  have hv: "HasVBFPair sel_vbf_nan (length (jets_p4 ev_vbf_nan))"
    by (simp add: HasVBFPair_def sel_vbf_nan_def ev_vbf_nan_def)
  have i: "selectedVBFjetPair sel_vbf_nan = (index (vbf_nan ! 1), index (vbf_nan ! 3))"
    by (simp add: vbf_nan_def sel_vbf_nan_def)
  have g: "\<not> double_ge (mjj ex_K_fp vbf_nan 1 3) (mjj ex_K_fp vbf_nan 0 1)"
    unfolding vbf_nan_masses by simp
  show ?thesis
    using ev_vbf_nan_selection ev_vbf_nan_ranking hv i g vbf_nan_masses(1,5) by blast
qed

text \<open>
  Claim C6, amended. Whenever \<open>SelectSignalJets\<close> returns a defined VBF pair, the pair
  consists of the jets at two positions \<open>n < h\<close> of the pt ranked VBF candidate list (the
  jets with the noise veto and the pile-up-id bit passed, above the VBF pt threshold,
  inside the VBF eta window, and not chosen as first or second b-jet when the list was
  built). The invariant mass of the pair is a number above minus infinity (it is not
  not-a-number); it is greater than or equal to the mass of every combination of the list
  whose mass is a number, and strictly greater than the mass of every combination visited
  earlier whose mass is a number (first found maximum, strict comparison). The comparisons
  are those of IEEE 754.
\<close>

theorem SelectSignalJets_vbf_maximal:
  assumes sel: "SelectSignalJets K ev per jo = Inr sel"
    and bound: "length (jets_p4 ev) \<le> UndefinedJetIndex"
    and hv: "HasVBFPair sel (length (jets_p4 ev))"
  shows "\<exists>bjets vbf.
           bjets_ordered K ev per jo = Inr bjets
         \<and> vbf_jets_ordered K ev per jo (select_bjets (make_BTagger K per jo) ev bjets)
             = Inr vbf
         \<and> set (map index vbf) =
             {n. n < length (jets_p4 ev)
                 \<and> \<not> isSelectedBjet (select_bjets (make_BTagger K per jo) ev bjets) n
                 \<and> candidate K ev per n
                 \<and> vbf_pt_cut K < p4_Pt K (jets_p4 ev ! n)
                 \<and> \<bar>p4_eta K (jets_p4 ev ! n)\<bar> < vbf_eta_cut K}
         \<and> (\<exists>n h. n < h \<and> h < length vbf
               \<and> selectedVBFjetPair sel = (index (vbf ! n), index (vbf ! h))
               \<and> double_gt (mjj K vbf n h) MinusInfinity
               \<and> (\<forall>n' h'. n' < h' \<longrightarrow> h' < length vbf
                      \<longrightarrow> mjj K vbf n' h' = NaN
                          \<or> double_ge (mjj K vbf n h) (mjj K vbf n' h'))
               \<and> (\<forall>n' h'. n' < h' \<longrightarrow> h' < length vbf \<longrightarrow> lex_less (n', h') (n, h)
                      \<longrightarrow> mjj K vbf n' h' = NaN
                          \<or> double_gt (mjj K vbf n h) (mjj K vbf n' h')))"
proof -
  let ?bt = "make_BTagger K per jo"
  have nu: "selectedVBFjetPair sel \<noteq> UndefinedJetPair"
    using hv bound by (auto simp: HasVBFPair_def UndefinedJetPair_def)
  have main: ?thesis
    if b: "bjets_ordered K ev per jo = Inr bjets"
      and v: "vbf_jets_ordered K ev per jo (select_bjets ?bt ev bjets) = Inr vbf"
      and e: "selectedVBFjetPair sel = selectedVBFjetPair (select_vbf K vbf (select_bjets ?bt ev bjets))"
    for bjets vbf
  proof -
    from vbf_pair_shape[OF select_bjets_simps(1), of K vbf ?bt ev bjets] nu e
    have "\<exists>n h. n < h \<and> h < length vbf
               \<and> selectedVBFjetPair sel = (index (vbf ! n), index (vbf ! h))
               \<and> double_gt (mjj K vbf n h) MinusInfinity
               \<and> (\<forall>n' h'. n' < h' \<longrightarrow> h' < length vbf
                      \<longrightarrow> mjj K vbf n' h' = NaN
                          \<or> double_ge (mjj K vbf n h) (mjj K vbf n' h'))
               \<and> (\<forall>n' h'. n' < h' \<longrightarrow> h' < length vbf \<longrightarrow> lex_less (n', h') (n, h)
                      \<longrightarrow> mjj K vbf n' h' = NaN
                          \<or> double_gt (mjj K vbf n h) (mjj K vbf n' h'))"
      by auto
    with b v vbf_jets_ordered_indices[OF v select_bjets_simps(1) bound] show ?thesis by blast
  qed
  from sel show ?thesis
  proof (cases rule: SelectSignalJets_cases)
    case (1 bjets vbf)
    show ?thesis by (rule main[OF 1(1) 1(2)]) (simp add: 1(4))
  next
    case (2 bjets vbf new_bjets)
    show ?thesis by (rule main[OF 2(1) 2(2)]) (simp add: 2(6))
  next
    case (3 bjets vbf)
    then show ?thesis using nu by simp
  next
    case (4 bjets vbf)
    then show ?thesis using nu by simp
  qed
qed

text \<open>
  The theorem on \<open>ev_vbf_nan\<close>: four VBF candidates, six combinations. The first three
  have a mass that is not a number and are passed over; of the other three, of masses
  900, 915 and 915, the first of the two maxima is the pair returned.
\<close>

theorem SelectSignalJets_vbf_maximal_witness:
  "SelectSignalJets ex_K_fp ev_vbf_nan 0 0 = Inr sel_vbf_nan
   \<and> length (jets_p4 ev_vbf_nan) \<le> UndefinedJetIndex
   \<and> HasVBFPair sel_vbf_nan (length (jets_p4 ev_vbf_nan))
   \<and> vbf_jets_ordered ex_K_fp ev_vbf_nan 0 0
         \<lparr>selectedBjetPair = (0, 1), selectedVBFjetPair = UndefinedJetPair, n_bjets = 2\<rparr>
       = Inr vbf_nan
   \<and> map index vbf_nan = [2, 3, 4, 5]
   \<and> selectedVBFjetPair sel_vbf_nan = (index (vbf_nan ! 1), index (vbf_nan ! 3))
   \<and> mjj ex_K_fp vbf_nan 0 1 = NaN \<and> mjj ex_K_fp vbf_nan 0 2 = NaN
   \<and> mjj ex_K_fp vbf_nan 0 3 = NaN \<and> mjj ex_K_fp vbf_nan 1 2 = Finite 900
   \<and> mjj ex_K_fp vbf_nan 1 3 = Finite 915 \<and> mjj ex_K_fp vbf_nan 2 3 = Finite 915
   \<and> (\<exists>bjets vbf.
           bjets_ordered ex_K_fp ev_vbf_nan 0 0 = Inr bjets
         \<and> vbf_jets_ordered ex_K_fp ev_vbf_nan 0 0
               (select_bjets (make_BTagger ex_K_fp 0 0) ev_vbf_nan bjets)
             = Inr vbf
         \<and> set (map index vbf) =
             {n. n < length (jets_p4 ev_vbf_nan)
                 \<and> \<not> isSelectedBjet (select_bjets (make_BTagger ex_K_fp 0 0) ev_vbf_nan bjets) n
                 \<and> candidate ex_K_fp ev_vbf_nan 0 n
                 \<and> vbf_pt_cut ex_K_fp < p4_Pt ex_K_fp (jets_p4 ev_vbf_nan ! n)
                 \<and> \<bar>p4_eta ex_K_fp (jets_p4 ev_vbf_nan ! n)\<bar> < vbf_eta_cut ex_K_fp}
         \<and> (\<exists>n h. n < h \<and> h < length vbf
               \<and> selectedVBFjetPair sel_vbf_nan = (index (vbf ! n), index (vbf ! h))
               \<and> double_gt (mjj ex_K_fp vbf n h) MinusInfinity
               \<and> (\<forall>n' h'. n' < h' \<longrightarrow> h' < length vbf
                      \<longrightarrow> mjj ex_K_fp vbf n' h' = NaN
                          \<or> double_ge (mjj ex_K_fp vbf n h) (mjj ex_K_fp vbf n' h'))
               \<and> (\<forall>n' h'. n' < h' \<longrightarrow> h' < length vbf \<longrightarrow> lex_less (n', h') (n, h)
                      \<longrightarrow> mjj ex_K_fp vbf n' h' = NaN
                          \<or> double_gt (mjj ex_K_fp vbf n h) (mjj ex_K_fp vbf n' h'))))"
proof -
  have s: "SelectSignalJets ex_K_fp ev_vbf_nan 0 0 = Inr sel_vbf_nan"
    by (rule ev_vbf_nan_selection)
  have b: "length (jets_p4 ev_vbf_nan) \<le> UndefinedJetIndex"
    by (simp add: ev_vbf_nan_def small_le_Undefined)
  have hv: "HasVBFPair sel_vbf_nan (length (jets_p4 ev_vbf_nan))"
    by (simp add: HasVBFPair_def sel_vbf_nan_def ev_vbf_nan_def)
  have i: "map index vbf_nan = [2, 3, 4, 5]"
    "selectedVBFjetPair sel_vbf_nan = (index (vbf_nan ! 1), index (vbf_nan ! 3))"
    by (simp_all add: vbf_nan_def sel_vbf_nan_def)
  from SelectSignalJets_vbf_maximal[OF s b hv] show ?thesis
    using s b hv i ev_vbf_nan_ranking vbf_nan_masses by blast
qed

section \<open>The three-jet example\<close>

text \<open>
  Claim C7. For a record with three jets in which jets 0 and 1 pass all cuts, jet 0 has the
  higher tag score, jet 1 passes the working point and jet 2 fails the pt cut,
  \<open>SelectSignalJets\<close> returns the b-jet pair \<open>(0, 1)\<close>, two b-tag candidates and an
  undefined VBF pair.
\<close>

theorem SelectSignalJets_three_jets:
  assumes n3: "length (jets_p4 ev) = 3"
    and pu: "3 \<le> length (jets_pu_id ev)"
    and j0: "passes_all_cuts K ev per (make_BTagger K per jo) 0"
    and j1: "passes_all_cuts K ev per (make_BTagger K per jo) 1"
    and top: "BTag (make_BTagger K per jo) ev 1 < BTag (make_BTagger K per jo) ev 0"
    and wp: "Pass (make_BTagger K per jo) ev 1"
    and j2: "\<not> PtCut (make_BTagger K per jo) < p4_Pt K (jets_p4 ev ! 2)"
  shows "SelectSignalJets K ev per jo =
           Inr \<lparr>selectedBjetPair = (0, 1), selectedVBFjetPair = UndefinedJetPair, n_bjets = 2\<rparr>"
proof -
  let ?bt = "make_BTagger K per jo"
  have idx: "[0 ..< length (jets_p4 ev)] = [0, 1, 2]" by (simp add: n3 upt_rec)
  have u: "unselected SelectedSignalJets_init 0" "unselected SelectedSignalJets_init 1"
    "unselected SelectedSignalJets_init 2" "unselected SelectedSignalJets_init (Suc 0)"
    by (simp_all add: unselected_init UndefinedJetIndex_def)
  have pl: "jets_pu_id ev \<noteq> []" "Suc 0 < length (jets_pu_id ev)" "2 < length (jets_pu_id ev)"
    using pu by auto
  have b: "bjets_ordered K ev per jo
            = Inr [mk_JetInfo K ev ?bt True 0, mk_JetInfo K ev ?bt True 1]"
    using pl j0 j1 top j2
    unfolding bjets_ordered_def CreateJetInfo_def CreateJetInfo_loop_eq idx
    by (simp add: Let_def u passes_all_cuts_def candidate_def
        OrderJets_def PassHardCut_def mk_JetInfo_def)
  let ?s2 = "\<lparr>selectedBjetPair = (0, 1), selectedVBFjetPair = UndefinedJetPair, n_bjets = 2\<rparr>"
  have s2: "select_bjets ?bt ev [mk_JetInfo K ev ?bt True 0, mk_JetInfo K ev ?bt True 1] = ?s2"
    using wp by (simp add: select_bjets_def SelectedSignalJets_init_def Let_def)
  obtain vbf where v: "vbf_jets_ordered K ev per jo ?s2 = Inr vbf" and lv: "length vbf < 2"
    using pl
    unfolding vbf_jets_ordered_def CreateJetInfo_def CreateJetInfo_loop_eq idx
    by (simp add: Let_def unselected_def isSelectedBjet_def isSelectedVBFjet_def
        UndefinedJetPair_def Undefined_neq_small OrderJets_def)
  have s3: "select_vbf K vbf ?s2 = ?s2"
    by (simp add: select_vbf_def vbf_loop_short[OF lv])
  show ?thesis
    unfolding SelectSignalJets_def b sum.case Let_def s2 v s3
    by (simp add: HasBjetPair_def n3)
qed

theorem SelectSignalJets_three_jets_witness:
  "length (jets_p4 ev_three) = 3
   \<and> 3 \<le> length (jets_pu_id ev_three)
   \<and> passes_all_cuts ex_K ev_three 0 (make_BTagger ex_K 0 0) 0
   \<and> passes_all_cuts ex_K ev_three 0 (make_BTagger ex_K 0 0) 1
   \<and> BTag (make_BTagger ex_K 0 0) ev_three 1 < BTag (make_BTagger ex_K 0 0) ev_three 0
   \<and> Pass (make_BTagger ex_K 0 0) ev_three 1
   \<and> \<not> PtCut (make_BTagger ex_K 0 0) < p4_Pt ex_K (jets_p4 ev_three ! 2)
   \<and> SelectSignalJets ex_K ev_three 0 0 =
        Inr \<lparr>selectedBjetPair = (0, 1), selectedVBFjetPair = UndefinedJetPair, n_bjets = 2\<rparr>"
proof -
  have h: "length (jets_p4 ev_three) = 3"
    "3 \<le> length (jets_pu_id ev_three)"
    "passes_all_cuts ex_K ev_three 0 (make_BTagger ex_K 0 0) 0"
    "passes_all_cuts ex_K ev_three 0 (make_BTagger ex_K 0 0) 1"
    "BTag (make_BTagger ex_K 0 0) ev_three 1 < BTag (make_BTagger ex_K 0 0) ev_three 0"
    "Pass (make_BTagger ex_K 0 0) ev_three 1"
    "\<not> PtCut (make_BTagger ex_K 0 0) < p4_Pt ex_K (jets_p4 ev_three ! 2)"
    by (simp_all add: passes_all_cuts_def ev_three_def ex_event_def ex_K_def ex_BTagger_def
        ex_scores_def)
  from SelectSignalJets_three_jets[OF h] show ?thesis using h by blast
qed

section \<open>Disjointness of the two selected pairs\<close>

text \<open>
  Claim C10. Whenever \<open>SelectSignalJets\<close> returns a selection in which both the b-jet pair
  and the VBF pair are defined (in the sense of \<open>HasBjetPair\<close> and \<open>HasVBFPair\<close>), no jet
  index belongs to both pairs. The jet array has at most \<open>SIZE_MAX\<close> entries, as every
  \<open>std::vector\<close> has.
\<close>

theorem SelectSignalJets_pairs_disjoint:
  assumes sel: "SelectSignalJets K ev per jo = Inr sel"
    and bound: "length (jets_p4 ev) \<le> UndefinedJetIndex"
    and hb: "HasBjetPair sel (length (jets_p4 ev))"
    and hv: "HasVBFPair sel (length (jets_p4 ev))"
  shows "{fst (selectedBjetPair sel), snd (selectedBjetPair sel)}
         \<inter> {fst (selectedVBFjetPair sel), snd (selectedVBFjetPair sel)} = {}"
proof -
  let ?bt = "make_BTagger K per jo"
  have nu: "selectedVBFjetPair sel \<noteq> UndefinedJetPair"
    using hv bound by (auto simp: HasVBFPair_def UndefinedJetPair_def)
  from sel show ?thesis
  proof (cases rule: SelectSignalJets_cases)
    case (1 bjets vbf)
    let ?s2 = "select_bjets ?bt ev bjets"
    from s3_vbf_facts[OF 1(2) select_bjets_simps(1)] nu 1(4)
    have "unselected ?s2 (fst (selectedVBFjetPair sel))"
      "unselected ?s2 (snd (selectedVBFjetPair sel))"
      by auto
    from unselectedD[OF this(1)] unselectedD[OF this(2)] show ?thesis
      unfolding 1(4) by (auto simp: select_vbf_simps)
  next
    case (2 bjets vbf new_bjets)
    let ?s2 = "select_bjets ?bt ev bjets"
    let ?s3 = "select_vbf K vbf ?s2"
    have vs: "selectedVBFjetPair sel = selectedVBFjetPair ?s3" unfolding 2(6) by simp
    from s3_vbf_facts[OF 2(2) select_bjets_simps(1)] nu vs
    have "unselected ?s2 (fst (selectedVBFjetPair ?s3))"
      "unselected ?s2 (snd (selectedVBFjetPair ?s3))"
      by auto
    note a = unselectedD[OF this(1)] unselectedD[OF this(2)]
    have "new_bjets ! 0 \<in> set new_bjets" using 2(5) by (cases new_bjets) auto
    from new_bjets_ordered_props(2)[OF 2(4) this]
    have "unselected ?s3 (index (new_bjets ! 0))" by simp
    note b = unselectedD[OF this]
    show ?thesis using a b unfolding 2(6) by auto
  next
    case (3 bjets vbf)
    then show ?thesis using nu by simp
  next
    case (4 bjets vbf)
    then show ?thesis using nu by simp
  qed
qed

theorem SelectSignalJets_pairs_disjoint_witness:
  "SelectSignalJets ex_K ev_bb_vbf 0 0 =
     Inr \<lparr>selectedBjetPair = (0, 1), selectedVBFjetPair = (2, 3), n_bjets = 2\<rparr>
   \<and> length (jets_p4 ev_bb_vbf) \<le> UndefinedJetIndex
   \<and> HasBjetPair \<lparr>selectedBjetPair = (0, 1), selectedVBFjetPair = (2, 3), n_bjets = 2\<rparr>
        (length (jets_p4 ev_bb_vbf))
   \<and> HasVBFPair \<lparr>selectedBjetPair = (0, 1), selectedVBFjetPair = (2, 3), n_bjets = 2\<rparr>
        (length (jets_p4 ev_bb_vbf))
   \<and> {0, 1} \<inter> {2, 3 :: nat} = {}"
proof -
  let ?sel = "\<lparr>selectedBjetPair = (0, 1), selectedVBFjetPair = (2, 3), n_bjets = 2\<rparr>"
  have s: "SelectSignalJets ex_K ev_bb_vbf 0 0 = Inr ?sel" by (rule ev_bb_vbf_selection)
  have b: "length (jets_p4 ev_bb_vbf) \<le> UndefinedJetIndex"
    by (simp add: ev_bb_vbf_def ex_event_def small_le_Undefined)
  have hb: "HasBjetPair ?sel (length (jets_p4 ev_bb_vbf))"
    by (simp add: HasBjetPair_def ev_bb_vbf_def ex_event_def)
  have hv: "HasVBFPair ?sel (length (jets_p4 ev_bb_vbf))"
    by (simp add: HasVBFPair_def ev_bb_vbf_def ex_event_def)
  from SelectSignalJets_pairs_disjoint[OF s b hb hv] show ?thesis
    using s b hb hv by simp
qed

section \<open>Memoization of the derived fields\<close>




end
